theory Spec2Isabelle
  imports Complex_Main "HOL-Library.Word"
begin

section \<open>USD pricing of tokens, swaps and pools (src/mappings/pricing.ts)\<close>

text \<open>
  A shallow embedding of \<^verbatim>\<open>src/mappings/pricing.ts\<close>. The entity store of the
  subgraph is an explicit state: one map per entity type, from the entity's id to
  its fields. \<^verbatim>\<open>X.load(id)\<close> is a lookup, \<^verbatim>\<open>x.save()\<close> an update at the id the
  object was loaded or constructed with. A trap of the AssemblyScript runtime (reading a
  field of \<^verbatim>\<open>null\<close>, indexing an array out of range) is the value \<open>Inl\<close> of a sum.

  \<^verbatim>\<open>BigDecimal\<close> and \<^verbatim>\<open>BigInt\<close> are the arbitrary-precision numbers of the host
  runtime; they are modelled by exact rationals and integers. \<^verbatim>\<open>Bytes\<close> and
  \<^verbatim>\<open>Address\<close> are byte strings compared by value, and
  \<^verbatim>\<open>Address.fromString(b.toHexString())\<close> is the identity on them.
\<close>

subsection \<open>Values of the host runtime\<close>

type_synonym BigDecimal = rat
type_synonym BigInt = int
type_synonym Bytes = "8 word list"
type_synonym Address = "8 word list"

definition ZERO_BD :: BigDecimal where
  "ZERO_BD = 0"

definition ONE_BD :: BigDecimal where
  "ONE_BD = 1"

datatype trap = NullDereference | IndexOutOfRange | DivisionByZero

text \<open>\<^verbatim>\<open>BigDecimal.div\<close>: the quotient; the host aborts the handler on a zero divisor.\<close>

definition BigDecimal_div :: "BigDecimal \<Rightarrow> BigDecimal \<Rightarrow> trap + BigDecimal" where
  "BigDecimal_div x y = (if y = 0 then Inl DivisionByZero else Inr (x / y))"

definition hexChar :: "nat \<Rightarrow> char" where
  "hexChar n = ''0123456789abcdef'' ! n"

text \<open>\<^verbatim>\<open>toHexString\<close>: \<^verbatim>\<open>0x\<close> followed by two lower-case hexadecimal digits per byte.\<close>

definition toHexString :: "Bytes \<Rightarrow> string" where
  "toHexString bs =
     ''0x'' @ concat (map (\<lambda>b. [hexChar (unat b div 16), hexChar (unat b mod 16)]) bs)"

fun natToString :: "nat \<Rightarrow> string" where
  "natToString n =
     (if n < 10 then [''0123456789'' ! n]
      else natToString (n div 10) @ [''0123456789'' ! (n mod 10)])"

declare natToString.simps [simp del]

text \<open>\<^verbatim>\<open>BigInt.toString\<close>: the decimal numeral, with a minus sign when negative.\<close>

definition BigInt_toString :: "BigInt \<Rightarrow> string" where
  "BigInt_toString i =
     (if i < 0 then CHR ''-'' # natToString (nat (- i)) else natToString (nat i))"

subsection \<open>Entities (types/schema) and the store\<close>

record Token =
  latestUSDPrice :: "BigDecimal option"
  latestPrice :: "string option"

record LatestPrice =
  asset :: Bytes
  pricingAsset :: Bytes
  block :: BigInt
  poolId :: string
  price :: BigDecimal

record TokenPrice =
  asset :: Bytes
  pricingAsset :: Bytes
  block :: BigInt
  poolId :: string
  price :: BigDecimal

record Pool =
  address :: Bytes
  tokensList :: "Bytes list"
  totalShares :: BigDecimal
  totalLiquidity :: BigDecimal

record PoolToken =
  balance :: BigDecimal

record PoolHistoricalLiquidity =
  poolId :: string
  pricingAsset :: Bytes
  block :: BigInt
  poolTotalShares :: BigDecimal
  poolLiquidity :: BigDecimal
  poolShareValue :: BigDecimal

record Balancer =
  totalLiquidity :: BigDecimal

record BalancerSnapshot =
  totalLiquidity :: BigDecimal

record store =
  Pools :: "string \<rightharpoonup> Pool"
  PoolTokens :: "string \<times> Address \<rightharpoonup> PoolToken"
  Tokens :: "Address \<rightharpoonup> Token"
  LatestPrices :: "string \<rightharpoonup> LatestPrice"
  PoolHistoricalLiquidities :: "string \<rightharpoonup> PoolHistoricalLiquidity"
  Balancers :: "string \<rightharpoonup> Balancer"
  PoolSnapshots :: "string \<times> 32 word \<rightharpoonup> Pool"
  BalancerSnapshots :: "string \<times> 32 word \<rightharpoonup> BalancerSnapshot"

subsection \<open>Configuration and helpers that live outside pricing.ts\<close>

text \<open>
  The constants \<^verbatim>\<open>PRICING_ASSETS\<close> and \<^verbatim>\<open>USD_STABLE_ASSETS\<close> (helpers/constants),
  the capability query \<^verbatim>\<open>hasVirtualSupply\<close> (helpers/pools) and the period of the
  time-bucketed snapshots are parameters of the model.
\<close>

record config =
  PRICING_ASSETS :: "Address list"
  USD_STABLE_ASSETS :: "Address list"
  hasVirtualSupply :: "Pool \<Rightarrow> bool"
  snapshotBucket :: "32 word \<Rightarrow> 32 word"

text \<open>
  Modelled from the spec: \<^verbatim>\<open>getToken\<close> of helpers/misc is not part of the sources at
  hand. A Token is identified by its address and its \<open>latestUSDPrice\<close> is absent until
  the first observation: the stored Token, or a fresh one without a price.
\<close>

definition getToken :: "store \<Rightarrow> Address \<Rightarrow> Token" where
  "getToken s tokenAddress =
     (case Tokens s tokenAddress of
        Some token \<Rightarrow> token
      | None \<Rightarrow> \<lparr>latestUSDPrice = None, latestPrice = None\<rparr>)"

text \<open>
  Modelled from the spec: \<^verbatim>\<open>loadPoolToken\<close> of helpers/misc is not part of the
  sources at hand. Balances are held in one PoolToken record per (poolId, tokenAddress),
  which may be absent.
\<close>

definition loadPoolToken :: "store \<Rightarrow> string \<Rightarrow> Address \<Rightarrow> PoolToken option" where
  "loadPoolToken s pid tokenAddress = PoolTokens s (pid, tokenAddress)"

text \<open>
  Modelled from the spec: \<^verbatim>\<open>createPoolSnapshot\<close> of helpers/misc is not part of the
  sources at hand. It upserts the time-bucketed snapshot of the pool and touches no other
  entity.
\<close>

definition createPoolSnapshot :: "config \<Rightarrow> string \<Rightarrow> Pool \<Rightarrow> 32 word \<Rightarrow> store \<Rightarrow> store" where
  "createPoolSnapshot cfg pid pool timestamp s =
     s\<lparr>PoolSnapshots := (PoolSnapshots s)((pid, snapshotBucket cfg timestamp) \<mapsto> pool)\<rparr>"

text \<open>
  Modelled from the spec: \<^verbatim>\<open>getBalancerSnapshot\<close> of helpers/misc is not part of the
  sources at hand. It returns the snapshot of the aggregate for the bucket of the
  timestamp, a fresh one when none is stored yet.
\<close>

definition getBalancerSnapshot :: "config \<Rightarrow> store \<Rightarrow> string \<Rightarrow> 32 word \<Rightarrow> BalancerSnapshot" where
  "getBalancerSnapshot cfg s vaultId timestamp =
     (case BalancerSnapshots s (vaultId, snapshotBucket cfg timestamp) of
        Some snapshot \<Rightarrow> snapshot
      | None \<Rightarrow> \<lparr>BalancerSnapshot.totalLiquidity = ZERO_BD\<rparr>)"

subsection \<open>The registry: isPricingAsset, getPreferentialPricingAsset, isUSDStable\<close>

text \<open>The loop \<^verbatim>\<open>for i < xs.length: if (xs[i] == asset) return true; return false\<close>.\<close>

fun containsAddress :: "Address list \<Rightarrow> Address \<Rightarrow> bool" where
  "containsAddress [] a = False"
| "containsAddress (x # xs) a = (if x = a then True else containsAddress xs a)"

definition isPricingAsset :: "config \<Rightarrow> Address \<Rightarrow> bool" where
  "isPricingAsset cfg a = containsAddress (PRICING_ASSETS cfg) a"

definition isUSDStable :: "config \<Rightarrow> Address \<Rightarrow> bool" where
  "isUSDStable cfg a = containsAddress (USD_STABLE_ASSETS cfg) a"

definition ZERO_ADDRESS :: Address where
  "ZERO_ADDRESS = replicate 20 0"

fun firstListedIn :: "Address list \<Rightarrow> Address list \<Rightarrow> Address" where
  "firstListedIn [] assets = ZERO_ADDRESS"
| "firstListedIn (x # xs) assets = (if x \<in> set assets then x else firstListedIn xs assets)"

definition getPreferentialPricingAsset :: "config \<Rightarrow> Address list \<Rightarrow> Address" where
  "getPreferentialPricingAsset cfg assets = firstListedIn (PRICING_ASSETS cfg) assets"

subsection \<open>valueInUSD and swapValueInUSD\<close>

text \<open>
  In \<open>swapValueInUSD\<close> the divisor is the literal 2 or \<open>ONE_BD\<close>, never zero, so
  that division cannot abort and is written as the quotient itself.
\<close>

definition valueInUSD :: "config \<Rightarrow> store \<Rightarrow> BigDecimal \<Rightarrow> Address \<Rightarrow> BigDecimal" where
  "valueInUSD cfg s val a =
     (let usdValue = ZERO_BD in
      if isUSDStable cfg a then val
      else
        (let token = getToken s a in
         case latestUSDPrice token of
           Some p \<Rightarrow> val * p
         | None \<Rightarrow> usdValue))"

definition swapValueInUSD ::
  "config \<Rightarrow> store \<Rightarrow> Address \<Rightarrow> BigDecimal \<Rightarrow> Address \<Rightarrow> BigDecimal \<Rightarrow> BigDecimal" where
  "swapValueInUSD cfg s tokenInAddress tokenAmountIn tokenOutAddress tokenAmountOut =
     (if isUSDStable cfg tokenOutAddress then
        valueInUSD cfg s tokenAmountOut tokenOutAddress
      else if isUSDStable cfg tokenInAddress then
        valueInUSD cfg s tokenAmountIn tokenInAddress
      else if isPricingAsset cfg tokenInAddress \<and> \<not> isPricingAsset cfg tokenOutAddress then
        valueInUSD cfg s tokenAmountIn tokenInAddress
      else if isPricingAsset cfg tokenOutAddress \<and> \<not> isPricingAsset cfg tokenInAddress then
        valueInUSD cfg s tokenAmountOut tokenOutAddress
      else
        (let tokenInSwapValueUSD = valueInUSD cfg s tokenAmountIn tokenInAddress;
             tokenOutSwapValueUSD = valueInUSD cfg s tokenAmountOut tokenOutAddress;
             divisor = (if tokenInSwapValueUSD > ZERO_BD \<and> tokenOutSwapValueUSD > ZERO_BD
                        then 2 else ONE_BD)
         in (tokenInSwapValueUSD + tokenOutSwapValueUSD) / divisor))"

subsection \<open>updateLatestPrice\<close>

definition getLatestPriceId :: "Address \<Rightarrow> Address \<Rightarrow> string" where
  "getLatestPriceId tokenAddress pricingAssetAddress =
     toHexString tokenAddress @ ''-'' @ toHexString pricingAssetAddress"

text \<open>
  A LatestPrice made by \<^verbatim>\<open>new LatestPrice(latestPriceId)\<close> gets its asset and
  pricingAsset at once; its block, poolId and price are assigned right after, on the
  created and on the loaded record alike, so their initial values are never read.
\<close>

definition updateLatestPrice :: "config \<Rightarrow> TokenPrice \<Rightarrow> store \<Rightarrow> store" where
  "updateLatestPrice cfg tokenPrice s =
     (let tokenAddress = TokenPrice.asset tokenPrice;
          pricingAssetAddress = TokenPrice.pricingAsset tokenPrice;
          latestPriceId = getLatestPriceId tokenAddress pricingAssetAddress;
          created =
            (case LatestPrices s latestPriceId of
               None \<Rightarrow> \<lparr>LatestPrice.asset = TokenPrice.asset tokenPrice,
                         LatestPrice.pricingAsset = TokenPrice.pricingAsset tokenPrice,
                         LatestPrice.block = 0, LatestPrice.poolId = [],
                         LatestPrice.price = 0\<rparr>
             | Some stored \<Rightarrow> stored);
          latestPrice = created
            \<lparr>LatestPrice.block := TokenPrice.block tokenPrice,
             LatestPrice.poolId := TokenPrice.poolId tokenPrice,
             LatestPrice.price := TokenPrice.price tokenPrice\<rparr>;
          s1 = s\<lparr>LatestPrices := (LatestPrices s)(latestPriceId \<mapsto> latestPrice)\<rparr>;
          token = getToken s1 tokenAddress;
          tokenInUSD = valueInUSD cfg s1 (TokenPrice.price tokenPrice) pricingAssetAddress;
          token' = token\<lparr>latestUSDPrice := Some tokenInUSD, latestPrice := Some latestPriceId\<rparr>
      in s1\<lparr>Tokens := (Tokens s1)(tokenAddress \<mapsto> token')\<rparr>)"

subsection \<open>updatePoolLiquidity and updateBptPrice\<close>

definition getPoolHistoricalLiquidityId :: "string \<Rightarrow> Address \<Rightarrow> BigInt \<Rightarrow> string" where
  "getPoolHistoricalLiquidityId pid tokenAddress blk =
     pid @ ''-'' @ toHexString tokenAddress @ ''-'' @ BigInt_toString blk"

definition updateBptPrice :: "Pool \<Rightarrow> store \<Rightarrow> trap + store" where
  "updateBptPrice pool s =
     (if totalShares pool = ZERO_BD then Inr s
      else
        (let bptAddress = address pool;
             bptToken = getToken s bptAddress
         in case BigDecimal_div (Pool.totalLiquidity pool) (totalShares pool) of
              Inl e \<Rightarrow> Inl e
            | Inr bptPrice \<Rightarrow>
                Inr (s\<lparr>Tokens := (Tokens s)
                       (bptAddress \<mapsto> bptToken\<lparr>latestUSDPrice := Some bptPrice\<rparr>)\<rparr>)))"

text \<open>
  The loop over \<open>tokensList\<close>, with the running total \<open>poolValueUSD\<close> as accumulator;
  each \<^verbatim>\<open>continue\<close> goes on with the total unchanged.
\<close>

fun accumulatePoolValue ::
  "config \<Rightarrow> store \<Rightarrow> string \<Rightarrow> Pool \<Rightarrow> Bytes list \<Rightarrow> BigDecimal \<Rightarrow> BigDecimal" where
  "accumulatePoolValue cfg s pid pool [] poolValueUSD = poolValueUSD"
| "accumulatePoolValue cfg s pid pool (tokenAddress # rest) poolValueUSD =
     (case loadPoolToken s pid tokenAddress of
        None \<Rightarrow> accumulatePoolValue cfg s pid pool rest poolValueUSD
      | Some poolToken \<Rightarrow>
          (let poolTokenQuantity = balance poolToken;
               token = getToken s tokenAddress
           in case latestUSDPrice token of
                None \<Rightarrow> accumulatePoolValue cfg s pid pool rest poolValueUSD
              | Some tokenLatestUSDPrice \<Rightarrow>
                  if hasVirtualSupply cfg pool \<and> address pool = tokenAddress
                  then accumulatePoolValue cfg s pid pool rest poolValueUSD
                  else
                    (let poolTokenValue = tokenLatestUSDPrice * poolTokenQuantity
                     in accumulatePoolValue cfg s pid pool rest
                          (poolValueUSD + poolTokenValue))))"

text \<open>
  The result is the returned boolean with the store after the call, or the trap that
  ends the handler: \<^verbatim>\<open>USD_STABLE_ASSETS[0]\<close> on an empty list, a division by zero,
  and the fields of \<^verbatim>\<open>Balancer.load('2') as Balancer\<close> when that entity is absent.
\<close>

definition updatePoolLiquidity ::
  "config \<Rightarrow> string \<Rightarrow> BigInt \<Rightarrow> 32 word \<Rightarrow> store \<Rightarrow> trap + (bool \<times> store)" where
  "updatePoolLiquidity cfg pid blk timestamp s =
     (case Pools s pid of
        None \<Rightarrow> Inr (False, s)
      | Some pool \<Rightarrow>
          if length (tokensList pool) < 2 then Inr (False, s)
          else
            (let poolValueUSD = accumulatePoolValue cfg s pid pool (tokensList pool) ZERO_BD;
                 oldPoolLiquidity = Pool.totalLiquidity pool;
                 newPoolLiquidity = poolValueUSD;
                 liquidityChange = newPoolLiquidity - oldPoolLiquidity
             in if (poolValueUSD > ZERO_BD) \<noteq> (newPoolLiquidity > ZERO_BD) then Inr (False, s)
                else
                  (case USD_STABLE_ASSETS cfg of
                     [] \<Rightarrow> Inl IndexOutOfRange
                   | stable0 # _ \<Rightarrow>
                       (case (if totalShares pool > ZERO_BD
                              then BigDecimal_div poolValueUSD (totalShares pool)
                              else Inr ZERO_BD) of
                          Inl e \<Rightarrow> Inl e
                        | Inr shareValue \<Rightarrow>
                            (let phlId = getPoolHistoricalLiquidityId pid stable0 blk;
                                 phl = \<lparr>PoolHistoricalLiquidity.poolId = pid,
                                        PoolHistoricalLiquidity.pricingAsset = stable0,
                                        PoolHistoricalLiquidity.block = blk,
                                        poolTotalShares = totalShares pool,
                                        poolLiquidity = poolValueUSD,
                                        poolShareValue = shareValue\<rparr>;
                                 s1 = s\<lparr>PoolHistoricalLiquidities :=
                                          (PoolHistoricalLiquidities s)(phlId \<mapsto> phl)\<rparr>;
                                 pool' = pool\<lparr>Pool.totalLiquidity := newPoolLiquidity\<rparr>;
                                 s2 = s1\<lparr>Pools := (Pools s1)(pid \<mapsto> pool')\<rparr>
                             in case updateBptPrice pool' s2 of
                                  Inl e \<Rightarrow> Inl e
                                | Inr s3 \<Rightarrow>
                                    (let s4 = createPoolSnapshot cfg pid pool' timestamp s3
                                     in case Balancers s4 ''2'' of
                                          None \<Rightarrow> Inl NullDereference
                                        | Some vault \<Rightarrow>
                                            (let vault' = vault\<lparr>Balancer.totalLiquidity :=
                                                    Balancer.totalLiquidity vault
                                                      + liquidityChange\<rparr>;
                                                 s5 = s4\<lparr>Balancers :=
                                                          (Balancers s4)(''2'' \<mapsto> vault')\<rparr>;
                                                 vaultSnapshot =
                                                   getBalancerSnapshot cfg s5 ''2'' timestamp;
                                                 vaultSnapshot' = vaultSnapshot
                                                   \<lparr>BalancerSnapshot.totalLiquidity :=
                                                      Balancer.totalLiquidity vault'\<rparr>
                                             in Inr (True,
                                                  s5\<lparr>BalancerSnapshots := (BalancerSnapshots s5)
                                                       ((''2'', snapshotBucket cfg timestamp)
                                                          \<mapsto> vaultSnapshot')\<rparr>))))))))"

subsection \<open>A consistency condition on stored LatestPrice records\<close>

text \<open>
  Every LatestPrice record sits under the id that \<open>getLatestPriceId\<close> derives from its
  own asset and pricingAsset fields. The empty store satisfies this and
  \<open>updateLatestPrice\<close> keeps it.
\<close>

definition latestPriceIdsConsistent :: "store \<Rightarrow> bool" where
  "latestPriceIdsConsistent s \<longleftrightarrow>
     (\<forall>k r. LatestPrices s k = Some r \<longrightarrow>
        k = getLatestPriceId (LatestPrice.asset r) (LatestPrice.pricingAsset r))"

subsection \<open>Concrete assets, pools and stores\<close>

definition exampleAddress :: "8 word \<Rightarrow> Address" where
  "exampleAddress b = replicate 19 0 @ [b]"

definition USDC :: Address where "USDC = exampleAddress 1"
definition WETH :: Address where "WETH = exampleAddress 2"
definition tokenA :: Address where "tokenA = exampleAddress 10"
definition tokenB :: Address where "tokenB = exampleAddress 11"
definition tokenC :: Address where "tokenC = exampleAddress 12"
definition tokenD :: Address where "tokenD = exampleAddress 13"
definition bptP :: Address where "bptP = exampleAddress 241"
definition bptQ :: Address where "bptQ = exampleAddress 242"

definition exampleConfig :: config where
  "exampleConfig = \<lparr>PRICING_ASSETS = [WETH, USDC], USD_STABLE_ASSETS = [USDC],
     hasVirtualSupply = (\<lambda>pool. False), snapshotBucket = (\<lambda>t. t - t mod 86400)\<rparr>"

definition emptyStore :: store where
  "emptyStore = \<lparr>Pools = Map.empty, PoolTokens = Map.empty, Tokens = Map.empty,
     LatestPrices = Map.empty, PoolHistoricalLiquidities = Map.empty, Balancers = Map.empty,
     PoolSnapshots = Map.empty, BalancerSnapshots = Map.empty\<rparr>"

definition pricedStore :: store where
  "pricedStore = emptyStore\<lparr>Tokens :=
     [tokenA \<mapsto> \<lparr>latestUSDPrice = Some 2, latestPrice = None\<rparr>,
      tokenB \<mapsto> \<lparr>latestUSDPrice = Some 4, latestPrice = None\<rparr>,
      WETH \<mapsto> \<lparr>latestUSDPrice = Some 1000, latestPrice = None\<rparr>]\<rparr>"

definition observation1 :: TokenPrice where
  "observation1 = \<lparr>TokenPrice.asset = tokenA, TokenPrice.pricingAsset = WETH,
     TokenPrice.block = 20, TokenPrice.poolId = ''P'', TokenPrice.price = 3\<rparr>"

definition observation2 :: TokenPrice where
  "observation2 = \<lparr>TokenPrice.asset = tokenA, TokenPrice.pricingAsset = WETH,
     TokenPrice.block = 10, TokenPrice.poolId = ''Q'', TokenPrice.price = 5\<rparr>"

definition observation3 :: TokenPrice where
  "observation3 = \<lparr>TokenPrice.asset = tokenA, TokenPrice.pricingAsset = USDC,
     TokenPrice.block = 30, TokenPrice.poolId = ''P'', TokenPrice.price = 3\<rparr>"

definition poolP :: Pool where
  "poolP = \<lparr>address = bptP, tokensList = [tokenA, tokenB], totalShares = 20,
     Pool.totalLiquidity = 30\<rparr>"

definition poolQ :: Pool where
  "poolQ = \<lparr>address = bptQ, tokensList = [tokenC, tokenD], totalShares = 0,
     Pool.totalLiquidity = 5\<rparr>"

definition singleTokenPool :: Pool where
  "singleTokenPool = \<lparr>address = bptQ, tokensList = [tokenA], totalShares = 1,
     Pool.totalLiquidity = 7\<rparr>"

definition poolStore :: store where
  "poolStore = emptyStore
     \<lparr>Pools := [''P'' \<mapsto> poolP, ''Q'' \<mapsto> poolQ, ''S'' \<mapsto> singleTokenPool],
      PoolTokens := [(''P'', tokenA) \<mapsto> \<lparr>balance = 10\<rparr>, (''P'', tokenB) \<mapsto> \<lparr>balance = 5\<rparr>,
                     (''Q'', tokenC) \<mapsto> \<lparr>balance = 1\<rparr>, (''Q'', tokenD) \<mapsto> \<lparr>balance = 1\<rparr>],
      Tokens := [tokenA \<mapsto> \<lparr>latestUSDPrice = Some 2, latestPrice = None\<rparr>,
                 tokenB \<mapsto> \<lparr>latestUSDPrice = Some 4, latestPrice = None\<rparr>,
                 tokenC \<mapsto> \<lparr>latestUSDPrice = Some 8, latestPrice = None\<rparr>,
                 tokenD \<mapsto> \<lparr>latestUSDPrice = Some 12, latestPrice = None\<rparr>],
      Balancers := [''2'' \<mapsto> \<lparr>Balancer.totalLiquidity = 35\<rparr>]\<rparr>"

text \<open>Pool P valued at 40 USD before, with every price of its tokens now absent.\<close>

definition unpricedPool :: Pool where
  "unpricedPool = \<lparr>address = bptP, tokensList = [tokenA, tokenB], totalShares = 20,
     Pool.totalLiquidity = 40\<rparr>"

definition unpricedStore :: store where
  "unpricedStore = emptyStore
     \<lparr>Pools := [''P'' \<mapsto> unpricedPool],
      PoolTokens := [(''P'', tokenA) \<mapsto> \<lparr>balance = 10\<rparr>, (''P'', tokenB) \<mapsto> \<lparr>balance = 5\<rparr>],
      Balancers := [''2'' \<mapsto> \<lparr>Balancer.totalLiquidity = 40\<rparr>]\<rparr>"

text \<open>A pool holding the USD-stable asset, for which no price has been recorded.\<close>

definition stablePool :: Pool where
  "stablePool = \<lparr>address = bptP, tokensList = [USDC, tokenA], totalShares = 1,
     Pool.totalLiquidity = 0\<rparr>"

definition stableStore :: store where
  "stableStore = emptyStore
     \<lparr>Pools := [''U'' \<mapsto> stablePool],
      PoolTokens := [(''U'', USDC) \<mapsto> \<lparr>balance = 10\<rparr>, (''U'', tokenA) \<mapsto> \<lparr>balance = 3\<rparr>],
      Tokens := [tokenA \<mapsto> \<lparr>latestUSDPrice = Some 2, latestPrice = None\<rparr>],
      Balancers := [''2'' \<mapsto> \<lparr>Balancer.totalLiquidity = 0\<rparr>]\<rparr>"

text \<open>The store of pools without the aggregate, and a configuration without stable assets.\<close>

definition noAggregateStore :: store where
  "noAggregateStore = poolStore\<lparr>Balancers := Map.empty\<rparr>"

definition noStableConfig :: config where
  "noStableConfig = exampleConfig\<lparr>USD_STABLE_ASSETS := []\<rparr>"

section \<open>Properties\<close>

subsection \<open>Auxiliary facts\<close>

lemma exampleAddress_eq [simp]: "exampleAddress x = exampleAddress y \<longleftrightarrow> x = y"
  by (simp add: exampleAddress_def)

lemma containsAddress_set: "containsAddress xs a \<longleftrightarrow> a \<in> set xs"
  by (induction xs) auto

lemma valueInUSD_Tokens:
  "Tokens s' = Tokens s \<Longrightarrow> valueInUSD cfg s' x a = valueInUSD cfg s x a"
  by (simp add: valueInUSD_def getToken_def)

lemmas example_assets = USDC_def WETH_def tokenA_def tokenB_def tokenC_def tokenD_def
  bptP_def bptQ_def

lemma example_registry:
  "isUSDStable exampleConfig USDC" "\<not> isUSDStable exampleConfig WETH"
  "\<not> isUSDStable exampleConfig tokenA" "\<not> isUSDStable exampleConfig tokenB"
  "\<not> isUSDStable exampleConfig tokenC"
  "isPricingAsset exampleConfig WETH" "isPricingAsset exampleConfig USDC"
  "\<not> isPricingAsset exampleConfig tokenA" "\<not> isPricingAsset exampleConfig tokenB"
  "\<not> isPricingAsset exampleConfig tokenC"
  by (simp_all add: isUSDStable_def isPricingAsset_def exampleConfig_def example_assets)

lemma example_values:
  "valueInUSD exampleConfig pricedStore x USDC = x"
  "valueInUSD exampleConfig pricedStore x WETH = x * 1000"
  "valueInUSD exampleConfig pricedStore x tokenA = x * 2"
  "valueInUSD exampleConfig pricedStore x tokenB = x * 4"
  "valueInUSD exampleConfig pricedStore x tokenC = 0"
  by (simp_all add: valueInUSD_def isUSDStable_def exampleConfig_def getToken_def pricedStore_def
      emptyStore_def ZERO_BD_def example_assets)

subsection \<open>Entity ids determine their components\<close>

lemma hexChar_mem: "n < 16 \<Longrightarrow> hexChar n \<in> set ''0123456789abcdef''"
  unfolding hexChar_def by (rule nth_mem) simp

lemma hexChar_inj: "m < 16 \<Longrightarrow> n < 16 \<Longrightarrow> hexChar m = hexChar n \<Longrightarrow> m = n"
  unfolding hexChar_def
  by (subst (asm) nth_eq_iff_index_eq) simp_all

lemma hexChar_not_dash: "n < 16 \<Longrightarrow> hexChar n \<noteq> CHR ''-''"
  using hexChar_mem [of n] by auto

lemma byte_digits_bound: "unat (b :: 8 word) div 16 < 16" "unat b mod 16 < 16"
proof -
  have "unat b < 256" using unsigned_less [of b, where ?'a = nat] by simp
  then show "unat b div 16 < 16" by simp
  show "unat b mod 16 < 16" by simp
qed

lemma byte_digits_inj:
  fixes a b :: "8 word"
  assumes "hexChar (unat a div 16) = hexChar (unat b div 16)"
    and "hexChar (unat a mod 16) = hexChar (unat b mod 16)"
  shows "a = b"
proof -
  have "unat a div 16 = unat b div 16"
    using assms(1) by (rule hexChar_inj [OF byte_digits_bound(1) byte_digits_bound(1)])
  moreover have "unat a mod 16 = unat b mod 16"
    using assms(2) by (rule hexChar_inj [OF byte_digits_bound(2) byte_digits_bound(2)])
  ultimately have "unat a = unat b"
    by (metis div_mult_mod_eq)
  then show ?thesis by (simp add: word_unat_eq_iff)
qed

lemma hexDigits_inj:
  "concat (map (\<lambda>b::8 word. [hexChar (unat b div 16), hexChar (unat b mod 16)]) xs) =
   concat (map (\<lambda>b. [hexChar (unat b div 16), hexChar (unat b mod 16)]) ys) \<Longrightarrow> xs = ys"
proof (induction xs arbitrary: ys)
  case Nil
  then show ?case by (cases ys) simp_all
next
  case (Cons x xs)
  then show ?case by (cases ys) (auto dest: byte_digits_inj)
qed

lemma toHexString_inj: "toHexString a = toHexString b \<Longrightarrow> a = b"
  by (simp add: toHexString_def hexDigits_inj)

lemma dash_notin_toHexString: "CHR ''-'' \<notin> set (toHexString a)"
proof -
  have "CHR ''-'' \<noteq> hexChar (unat b div 16) \<and> CHR ''-'' \<noteq> hexChar (unat b mod 16)"
    for b :: "8 word"
    using hexChar_not_dash [OF byte_digits_bound(1), of b]
      hexChar_not_dash [OF byte_digits_bound(2), of b] by metis
  then have "CHR ''-'' \<notin>
      set (concat (map (\<lambda>b::8 word. [hexChar (unat b div 16), hexChar (unat b mod 16)]) a))"
    by (induction a) simp_all
  then show ?thesis
    by (simp add: toHexString_def)
qed

lemma getLatestPriceId_inj:
  "getLatestPriceId a p = getLatestPriceId a' p' \<longleftrightarrow> a = a' \<and> p = p'"
proof
  assume "getLatestPriceId a p = getLatestPriceId a' p'"
  then have "toHexString a @ CHR ''-'' # toHexString p = toHexString a' @ CHR ''-'' # toHexString p'"
    by (simp add: getLatestPriceId_def)
  then have "toHexString a = toHexString a' \<and> toHexString p = toHexString p'"
    using dash_notin_toHexString by (simp add: append_Cons_eq_iff)
  then show "a = a' \<and> p = p'" by (simp add: toHexString_inj)
qed simp

lemma digit_mem: "n < 10 \<Longrightarrow> ''0123456789'' ! n \<in> set ''0123456789''"
  by (rule nth_mem) simp

lemma digit_inj: "m < 10 \<Longrightarrow> n < 10 \<Longrightarrow> ''0123456789'' ! m = ''0123456789'' ! n \<Longrightarrow> m = n"
  by (subst (asm) nth_eq_iff_index_eq) simp_all

lemma natToString_nonempty: "natToString n \<noteq> []"
  by (subst natToString.simps) simp

lemma dash_notin_natToString: "CHR ''-'' \<notin> set (natToString n)"
proof (induction n rule: natToString.induct)
  case (1 n)
  have d: "''0123456789'' ! k \<noteq> CHR ''-''" if "k < 10" for k
    using digit_mem [OF that] by auto
  show ?case
  proof (cases "n < 10")
    case True
    then show ?thesis
      using d [of n] by (subst natToString.simps) auto
  next
    case False
    with "1.IH" d [of "n mod 10"] show ?thesis
      by (subst natToString.simps) auto
  qed
qed

lemma natToString_inj: "natToString m = natToString n \<Longrightarrow> m = n"
proof (induction m arbitrary: n rule: natToString.induct)
  case (1 m)
  show ?case
  proof (cases "m < 10")
    case m: True
    show ?thesis
    proof (cases "n < 10")
      case True
      with m "1.prems" show ?thesis
        by (simp add: natToString.simps [of m] natToString.simps [of n] digit_inj)
    next
      case False
      with m "1.prems" natToString_nonempty [of "n div 10"] show ?thesis
        by (simp add: natToString.simps [of m] natToString.simps [of n] Cons_eq_append_conv)
    qed
  next
    case m: False
    show ?thesis
    proof (cases "n < 10")
      case True
      with m "1.prems" natToString_nonempty [of "m div 10"] show ?thesis
        by (simp add: natToString.simps [of m] natToString.simps [of n] append_eq_Cons_conv)
    next
      case False
      with m "1.prems" have e: "natToString (m div 10) = natToString (n div 10)"
        "''0123456789'' ! (m mod 10) = ''0123456789'' ! (n mod 10)"
        by (simp_all add: natToString.simps [of m] natToString.simps [of n])
      from "1.IH" [OF m e(1)] have "m div 10 = n div 10" .
      moreover from e(2) have "m mod 10 = n mod 10"
        by (intro digit_inj) simp_all
      ultimately show ?thesis
        by (metis div_mult_mod_eq)
    qed
  qed
qed

lemma BigInt_toString_inj: "BigInt_toString i = BigInt_toString j \<Longrightarrow> i = j"
proof -
  assume e: "BigInt_toString i = BigInt_toString j"
  have hd_not_dash: "hd (natToString k) \<noteq> CHR ''-''" for k
    using dash_notin_natToString [of k] natToString_nonempty [of k]
    by (cases "natToString k") auto
  consider "i < 0" "j < 0" | "i < 0" "0 \<le> j" | "0 \<le> i" "j < 0" | "0 \<le> i" "0 \<le> j"
    by linarith
  then show ?thesis
  proof cases
    case 1
    with e have "nat (- i) = nat (- j)"
      by (simp add: BigInt_toString_def natToString_inj)
    with 1 show ?thesis by simp
  next
    case 2
    with e have "CHR ''-'' # natToString (nat (- i)) = natToString (nat j)"
      by (simp add: BigInt_toString_def)
    with hd_not_dash [of "nat j"] show ?thesis
      by (metis list.sel(1))
  next
    case 3
    with e have "natToString (nat i) = CHR ''-'' # natToString (nat (- j))"
      by (simp add: BigInt_toString_def)
    with hd_not_dash [of "nat i"] show ?thesis
      by (metis list.sel(1))
  next
    case 4
    with e have "nat i = nat j"
      by (simp add: BigInt_toString_def natToString_inj)
    with 4 show ?thesis by simp
  qed
qed

text \<open>Splitting at the last dash.\<close>

lemma split_last_dash:
  assumes "CHR ''-'' \<notin> set v" and "CHR ''-'' \<notin> set v'"
    and "u @ CHR ''-'' # v = u' @ CHR ''-'' # v'"
  shows "u = u' \<and> v = v'"
  using assms
  by (auto simp add: append_eq_append_conv2 append_eq_Cons_conv Cons_eq_append_conv)

lemma toHexString_last: "toHexString a \<noteq> [] \<and> last (toHexString a) \<noteq> CHR ''-''"
proof -
  have ne: "toHexString a \<noteq> []"
    by (simp add: toHexString_def)
  with dash_notin_toHexString [of a] show ?thesis
    using last_in_set by metis
qed

lemma getPoolHistoricalLiquidityId_inj:
  "getPoolHistoricalLiquidityId pid a blk = getPoolHistoricalLiquidityId pid' a' blk' \<longleftrightarrow>
     pid = pid' \<and> a = a' \<and> blk = blk'"
proof
  assume e: "getPoolHistoricalLiquidityId pid a blk = getPoolHistoricalLiquidityId pid' a' blk'"
  define H H' where "H = toHexString a" and "H' = toHexString a'"
  have Hd: "CHR ''-'' \<notin> set H" "CHR ''-'' \<notin> set H'"
    by (simp_all add: H_def H'_def dash_notin_toHexString)
  have Hl: "H \<noteq> []" "last H \<noteq> CHR ''-''" "H' \<noteq> []" "last H' \<noteq> CHR ''-''"
    using toHexString_last by (simp_all add: H_def H'_def)
  define N N' where "N = BigInt_toString blk" and "N' = BigInt_toString blk'"
  from e have s: "(pid @ CHR ''-'' # H) @ CHR ''-'' # N = (pid' @ CHR ''-'' # H') @ CHR ''-'' # N'"
    by (simp add: getPoolHistoricalLiquidityId_def H_def H'_def N_def N'_def)
  have front: "pid = pid' \<and> H = H'" if "pid @ CHR ''-'' # H = pid' @ CHR ''-'' # H'"
    using split_last_dash [OF Hd that] .
  have "pid = pid' \<and> H = H' \<and> N = N'"
  proof -
    consider "blk < 0" "blk' < 0" | "blk < 0" "0 \<le> blk'" | "0 \<le> blk" "blk' < 0"
      | "0 \<le> blk" "0 \<le> blk'"
      by linarith
    then show ?thesis
    proof cases
      case 1
      then have n: "N = CHR ''-'' # natToString (nat (- blk))"
        "N' = CHR ''-'' # natToString (nat (- blk'))"
        by (simp_all add: N_def N'_def BigInt_toString_def)
      from s have "((pid @ CHR ''-'' # H) @ ''-'') @ CHR ''-'' # natToString (nat (- blk)) =
          ((pid' @ CHR ''-'' # H') @ ''-'') @ CHR ''-'' # natToString (nat (- blk'))"
        by (simp add: n)
      from split_last_dash [OF dash_notin_natToString dash_notin_natToString this]
      show ?thesis using front by (simp add: n)
    next
      case 2
      then have n: "N = CHR ''-'' # natToString (nat (- blk))" "N' = natToString (nat blk')"
        by (simp_all add: N_def N'_def BigInt_toString_def)
      from s have "((pid @ CHR ''-'' # H) @ ''-'') @ CHR ''-'' # natToString (nat (- blk)) =
          (pid' @ CHR ''-'' # H') @ CHR ''-'' # natToString (nat blk')"
        by (simp add: n)
      from split_last_dash [OF dash_notin_natToString dash_notin_natToString this]
      have "(pid @ CHR ''-'' # H) @ ''-'' = pid' @ CHR ''-'' # H'" by simp
      then have "last ((pid @ CHR ''-'' # H) @ ''-'') = last (pid' @ CHR ''-'' # H')" by simp
      with Hl show ?thesis by simp
    next
      case 3
      then have n: "N = natToString (nat blk)" "N' = CHR ''-'' # natToString (nat (- blk'))"
        by (simp_all add: N_def N'_def BigInt_toString_def)
      from s have "(pid @ CHR ''-'' # H) @ CHR ''-'' # natToString (nat blk) =
          ((pid' @ CHR ''-'' # H') @ ''-'') @ CHR ''-'' # natToString (nat (- blk'))"
        by (simp add: n)
      from split_last_dash [OF dash_notin_natToString dash_notin_natToString this]
      have "pid @ CHR ''-'' # H = (pid' @ CHR ''-'' # H') @ ''-''" by simp
      then have "last (pid @ CHR ''-'' # H) = last ((pid' @ CHR ''-'' # H') @ ''-'')" by simp
      with Hl show ?thesis by simp
    next
      case 4
      then have n: "N = natToString (nat blk)" "N' = natToString (nat blk')"
        by (simp_all add: N_def N'_def BigInt_toString_def)
      from s have "(pid @ CHR ''-'' # H) @ CHR ''-'' # natToString (nat blk) =
          (pid' @ CHR ''-'' # H') @ CHR ''-'' # natToString (nat blk')"
        by (simp add: n)
      from split_last_dash [OF dash_notin_natToString dash_notin_natToString this]
      show ?thesis using front by (simp add: n)
    qed
  qed
  then show "pid = pid' \<and> a = a' \<and> blk = blk'"
    by (auto simp add: H_def H'_def N_def N'_def dest: toHexString_inj BigInt_toString_inj)
qed simp

subsection \<open>What updateLatestPrice writes\<close>

lemma updateLatestPrice_LatestPrices:
  "LatestPrices (updateLatestPrice cfg obs s) =
     (LatestPrices s)(getLatestPriceId (TokenPrice.asset obs) (TokenPrice.pricingAsset obs) \<mapsto>
        (case LatestPrices s (getLatestPriceId (TokenPrice.asset obs) (TokenPrice.pricingAsset obs)) of
           None \<Rightarrow> \<lparr>LatestPrice.asset = TokenPrice.asset obs,
                     LatestPrice.pricingAsset = TokenPrice.pricingAsset obs,
                     LatestPrice.block = TokenPrice.block obs,
                     LatestPrice.poolId = TokenPrice.poolId obs,
                     LatestPrice.price = TokenPrice.price obs\<rparr>
         | Some r \<Rightarrow> r\<lparr>LatestPrice.block := TokenPrice.block obs,
                        LatestPrice.poolId := TokenPrice.poolId obs,
                        LatestPrice.price := TokenPrice.price obs\<rparr>))"
  by (simp add: updateLatestPrice_def Let_def split: option.splits)

lemma updateLatestPrice_Tokens:
  "Tokens (updateLatestPrice cfg obs s) =
     (Tokens s)(TokenPrice.asset obs \<mapsto> (getToken s (TokenPrice.asset obs))
        \<lparr>latestUSDPrice := Some (valueInUSD cfg s (TokenPrice.price obs) (TokenPrice.pricingAsset obs)),
         latestPrice := Some (getLatestPriceId (TokenPrice.asset obs) (TokenPrice.pricingAsset obs))\<rparr>)"
  by (simp add: updateLatestPrice_def Let_def getToken_def valueInUSD_def)

lemma updateLatestPrice_consistent:
  "latestPriceIdsConsistent s \<Longrightarrow> latestPriceIdsConsistent (updateLatestPrice cfg obs s)"
  by (auto simp add: latestPriceIdsConsistent_def updateLatestPrice_LatestPrices
      split: option.splits if_splits)

subsection \<open>The outcomes of updatePoolLiquidity\<close>

text \<open>The guard on \<open>totalShares\<close> keeps the division of \<open>updateBptPrice\<close> from aborting.\<close>

lemma updateBptPrice_Inr:
  "updateBptPrice pool s =
     Inr (if totalShares pool = 0 then s
          else s\<lparr>Tokens := (Tokens s)(address pool \<mapsto> (getToken s (address pool))
                 \<lparr>latestUSDPrice := Some (Pool.totalLiquidity pool / totalShares pool)\<rparr>)\<rparr>)"
  by (simp add: updateBptPrice_def BigDecimal_div_def ZERO_BD_def Let_def)

lemma updatePoolLiquidity_False_iff:
  "updatePoolLiquidity cfg pid blk ts s = Inr (False, s') \<longleftrightarrow>
     s' = s \<and> (Pools s pid = None \<or> (\<exists>pool. Pools s pid = Some pool \<and> length (tokensList pool) < 2))"
  by (auto simp add: updatePoolLiquidity_def Let_def updateBptPrice_Inr BigDecimal_div_def
      ZERO_BD_def split: option.splits list.splits)

lemma updatePoolLiquidity_commit:
  assumes "Pools s pid = Some pool" and "2 \<le> length (tokensList pool)"
    and "USD_STABLE_ASSETS cfg = stable0 # others" and "Balancers s ''2'' = Some vault"
  shows "\<exists>s'. updatePoolLiquidity cfg pid blk ts s = Inr (True, s') \<and>
     Pools s' = (Pools s)(pid \<mapsto> pool\<lparr>Pool.totalLiquidity :=
        accumulatePoolValue cfg s pid pool (tokensList pool) ZERO_BD\<rparr>) \<and>
     PoolHistoricalLiquidities s' = (PoolHistoricalLiquidities s)
       (getPoolHistoricalLiquidityId pid stable0 blk \<mapsto>
          \<lparr>PoolHistoricalLiquidity.poolId = pid,
           PoolHistoricalLiquidity.pricingAsset = stable0,
           PoolHistoricalLiquidity.block = blk,
           poolTotalShares = totalShares pool,
           poolLiquidity = accumulatePoolValue cfg s pid pool (tokensList pool) ZERO_BD,
           poolShareValue =
             (if totalShares pool > 0
              then accumulatePoolValue cfg s pid pool (tokensList pool) ZERO_BD / totalShares pool
              else 0)\<rparr>) \<and>
     Balancers s' = (Balancers s)(''2'' \<mapsto> vault\<lparr>Balancer.totalLiquidity :=
        Balancer.totalLiquidity vault +
          (accumulatePoolValue cfg s pid pool (tokensList pool) ZERO_BD - Pool.totalLiquidity pool)\<rparr>) \<and>
     PoolTokens s' = PoolTokens s \<and> LatestPrices s' = LatestPrices s \<and>
     (\<forall>t. t \<noteq> address pool \<longrightarrow> Tokens s' t = Tokens s t)"
  using assms
  by (simp add: updatePoolLiquidity_def Let_def createPoolSnapshot_def updateBptPrice_Inr
      BigDecimal_div_def getToken_def ZERO_BD_def)

lemma updatePoolLiquidity_True_D:
  assumes "updatePoolLiquidity cfg pid blk ts s = Inr (True, s')"
  shows "\<exists>pool stable0 others vault. Pools s pid = Some pool \<and> 2 \<le> length (tokensList pool) \<and>
     USD_STABLE_ASSETS cfg = stable0 # others \<and> Balancers s ''2'' = Some vault"
  using assms
  by (auto simp add: updatePoolLiquidity_def Let_def createPoolSnapshot_def updateBptPrice_Inr
      BigDecimal_div_def ZERO_BD_def split: option.splits list.splits if_splits)

lemma updatePoolLiquidity_trap_D:
  assumes "updatePoolLiquidity cfg pid blk ts s = Inl e"
  shows "USD_STABLE_ASSETS cfg = [] \<or> Balancers s ''2'' = None"
  using assms
  by (auto simp add: updatePoolLiquidity_def Let_def createPoolSnapshot_def updateBptPrice_Inr
      BigDecimal_div_def ZERO_BD_def split: option.splits list.splits if_splits)

lemma updatePoolLiquidity_True_fields:
  assumes "updatePoolLiquidity cfg pid blk ts s = Inr (True, s')"
  shows "\<exists>pool stable0 others vault.
     Pools s pid = Some pool \<and> 2 \<le> length (tokensList pool) \<and>
     USD_STABLE_ASSETS cfg = stable0 # others \<and> Balancers s ''2'' = Some vault \<and>
     Pools s' = (Pools s)(pid \<mapsto> pool\<lparr>Pool.totalLiquidity :=
        accumulatePoolValue cfg s pid pool (tokensList pool) ZERO_BD\<rparr>) \<and>
     PoolHistoricalLiquidities s' = (PoolHistoricalLiquidities s)
       (getPoolHistoricalLiquidityId pid stable0 blk \<mapsto>
          \<lparr>PoolHistoricalLiquidity.poolId = pid,
           PoolHistoricalLiquidity.pricingAsset = stable0,
           PoolHistoricalLiquidity.block = blk,
           poolTotalShares = totalShares pool,
           poolLiquidity = accumulatePoolValue cfg s pid pool (tokensList pool) ZERO_BD,
           poolShareValue =
             (if totalShares pool > 0
              then accumulatePoolValue cfg s pid pool (tokensList pool) ZERO_BD / totalShares pool
              else 0)\<rparr>) \<and>
     Balancers s' = (Balancers s)(''2'' \<mapsto> vault\<lparr>Balancer.totalLiquidity :=
        Balancer.totalLiquidity vault +
          (accumulatePoolValue cfg s pid pool (tokensList pool) ZERO_BD - Pool.totalLiquidity pool)\<rparr>)"
proof -
  from updatePoolLiquidity_True_D [OF assms] obtain pool stable0 others vault where
    h: "Pools s pid = Some pool" "2 \<le> length (tokensList pool)"
       "USD_STABLE_ASSETS cfg = stable0 # others" "Balancers s ''2'' = Some vault"
    by blast
  from updatePoolLiquidity_commit [OF h, of blk ts] assms h show ?thesis
    by auto
qed

lemma updatePoolLiquidity_traps:
  assumes "Pools s pid = Some pool" and "2 \<le> length (tokensList pool)"
  shows "USD_STABLE_ASSETS cfg = [] \<Longrightarrow>
           updatePoolLiquidity cfg pid blk ts s = Inl IndexOutOfRange"
    and "USD_STABLE_ASSETS cfg \<noteq> [] \<Longrightarrow> Balancers s ''2'' = None \<Longrightarrow>
           updatePoolLiquidity cfg pid blk ts s = Inl NullDereference"
  using assms
  by (auto simp add: updatePoolLiquidity_def Let_def createPoolSnapshot_def updateBptPrice_Inr
      BigDecimal_div_def ZERO_BD_def split: list.splits)


subsection \<open>The running total of the loop\<close>

text \<open>The total passed in is carried through: the loop only ever adds to it.\<close>

lemma accumulatePoolValue_shift:
  "accumulatePoolValue cfg s pid pool ts (a + b) = a + accumulatePoolValue cfg s pid pool ts b"
  by (induction ts arbitrary: b) (auto simp add: Let_def add.assoc split: option.splits)


subsection \<open>The concrete stores, evaluated\<close>

lemma getPoolHistoricalLiquidityId_example:
  "getPoolHistoricalLiquidityId ''P'' USDC 100 =
     ''P-0x0000000000000000000000000000000000000001-100''"
  by code_simp

lemma poolStore_lookups:
  "Pools poolStore ''P'' = Some poolP" "Pools poolStore ''Q'' = Some poolQ"
  "Balancers poolStore ''2'' = Some \<lparr>Balancer.totalLiquidity = 35\<rparr>"
  "USD_STABLE_ASSETS exampleConfig = [USDC]"
  by (simp_all add: poolStore_def emptyStore_def exampleConfig_def)

lemma poolStore_values:
  "accumulatePoolValue exampleConfig poolStore ''P'' poolP (tokensList poolP) ZERO_BD = 40"
  "accumulatePoolValue exampleConfig poolStore ''Q'' poolQ (tokensList poolQ) ZERO_BD = 20"
  by (simp_all add: poolP_def poolQ_def loadPoolToken_def getToken_def poolStore_def emptyStore_def
      exampleConfig_def ZERO_BD_def example_assets)

lemma poolStore_tokens:
  "tokensList poolP = [tokenA, tokenB]" "totalShares poolP = 20"
  "loadPoolToken poolStore ''P'' tokenA = Some \<lparr>balance = 10\<rparr>"
  "latestUSDPrice (getToken poolStore tokenA) = Some 2"
  "loadPoolToken poolStore ''P'' tokenB = Some \<lparr>balance = 5\<rparr>"
  "latestUSDPrice (getToken poolStore tokenB) = Some 4"
  "\<not> (hasVirtualSupply exampleConfig poolP \<and> address poolP \<in> {tokenA, tokenB})"
  by (simp_all add: poolP_def loadPoolToken_def getToken_def poolStore_def emptyStore_def
      exampleConfig_def example_assets)

lemma stableStore_facts:
  "loadPoolToken stableStore ''U'' USDC = Some \<lparr>balance = 10\<rparr>"
  "loadPoolToken stableStore ''U'' tokenA = Some \<lparr>balance = 3\<rparr>"
  "\<not> (hasVirtualSupply exampleConfig stablePool \<and> address stablePool = USDC)"
  "\<not> (hasVirtualSupply exampleConfig stablePool \<and> address stablePool = tokenA)"
  "latestUSDPrice (getToken stableStore USDC) = None"
  "latestUSDPrice (getToken stableStore tokenA) = Some 2"
  by (simp_all add: loadPoolToken_def getToken_def stableStore_def emptyStore_def exampleConfig_def
      example_assets)

lemma unpricedStore_facts:
  "Pools unpricedStore ''P'' = Some unpricedPool"
  "Balancers unpricedStore ''2'' = Some \<lparr>Balancer.totalLiquidity = 40\<rparr>"
  "USD_STABLE_ASSETS exampleConfig = [USDC]"
  "accumulatePoolValue exampleConfig unpricedStore ''P'' unpricedPool (tokensList unpricedPool)
     ZERO_BD = 0"
  by (simp_all add: unpricedStore_def unpricedPool_def emptyStore_def exampleConfig_def
      loadPoolToken_def getToken_def ZERO_BD_def example_assets)

lemma stableStore_tokenC: "loadPoolToken stableStore ''U'' tokenC = None"
  by (simp add: loadPoolToken_def stableStore_def emptyStore_def example_assets)

lemma example_traps:
  "Pools noAggregateStore ''P'' = Some poolP" "Balancers noAggregateStore ''2'' = None"
  "USD_STABLE_ASSETS exampleConfig \<noteq> []" "USD_STABLE_ASSETS noStableConfig = []"
  "2 \<le> length (tokensList poolP)"
  by (simp_all add: noAggregateStore_def noStableConfig_def poolStore_def emptyStore_def
      exampleConfig_def poolP_def)

lemma getPoolHistoricalLiquidityId_example_Q:
  "getPoolHistoricalLiquidityId ''Q'' USDC 101 =
     ''Q-0x0000000000000000000000000000000000000001-101''"
  by code_simp



section \<open>Properties of the specification\<close>

text \<open>
  C1. The specification wants \<open>updatePoolLiquidity\<close> to return false, and to change
  nothing, when the positivity of the new total differs from that of the pool's prior
  \<open>totalLiquidity\<close>. The source compares \<^verbatim>\<open>poolValueUSD.gt(ZERO_BD)\<close> with
  \<^verbatim>\<open>newPoolLiquidity.gt(ZERO_BD)\<close>, two names of the same value, although its comment
  announces the check. On the pool of two tokens valued at 40 USD before, with every
  price now absent, the new total is 0 and the call does not return false: it commits,
  sets the pool's \<open>totalLiquidity\<close> to 0, takes 40 off the aggregate and writes a
  snapshot row with liquidity 0.
\<close>

theorem updatePoolLiquidity_unpriced_pool_commits:
  "Pools unpricedStore ''P'' = Some unpricedPool \<and>
   length (tokensList unpricedPool) = 2 \<and>
   Pool.totalLiquidity unpricedPool = 40 \<and>
   accumulatePoolValue exampleConfig unpricedStore ''P'' unpricedPool (tokensList unpricedPool)
     ZERO_BD = 0 \<and>
   updatePoolLiquidity exampleConfig ''P'' 100 1000 unpricedStore \<noteq> Inr (False, unpricedStore) \<and>
   (case updatePoolLiquidity exampleConfig ''P'' 100 1000 unpricedStore of
      Inl e \<Rightarrow> False
    | Inr (committed, s') \<Rightarrow> committed \<and>
        map_option Pool.totalLiquidity (Pools s' ''P'') = Some 0 \<and>
        map_option Balancer.totalLiquidity (Balancers s' ''2'') = Some 0 \<and>
        map_option poolLiquidity
          (PoolHistoricalLiquidities s' (getPoolHistoricalLiquidityId ''P'' USDC 100)) = Some 0)"
proof -
  have len: "length (tokensList unpricedPool) = 2" and old: "Pool.totalLiquidity unpricedPool = 40"
    by (simp_all add: unpricedPool_def)
  from len have two: "2 \<le> length (tokensList unpricedPool)" by simp
  from updatePoolLiquidity_commit [OF unpricedStore_facts(1) two unpricedStore_facts(3)
      unpricedStore_facts(2), of 100 1000]
  show ?thesis
    using len old unpricedStore_facts by auto
qed

text \<open>
  C2, as stated: every constituent token with a balance record, and not excluded by the
  virtual-supply rule, adds \<open>valueInUSD (balance, tokenAddress)\<close> to the running total.
  This fails for a USD-stable token without a recorded price: \<open>valueInUSD\<close> takes its
  balance of 10 at par, the loop skips it. With a second token worth 6, the loop ends
  at 6 where the stated rule gives 16.
\<close>

theorem accumulatePoolValue_stable_counterexample:
  "loadPoolToken stableStore ''U'' USDC = Some \<lparr>balance = 10\<rparr> \<and>
   \<not> (hasVirtualSupply exampleConfig stablePool \<and> address stablePool = USDC) \<and>
   isUSDStable exampleConfig USDC \<and>
   valueInUSD exampleConfig stableStore 10 USDC = 10 \<and>
   accumulatePoolValue exampleConfig stableStore ''U'' stablePool [USDC, tokenA] 0 = 6 \<and>
   accumulatePoolValue exampleConfig stableStore ''U'' stablePool [tokenA]
     (0 + valueInUSD exampleConfig stableStore 10 USDC) = 16 \<and>
   accumulatePoolValue exampleConfig stableStore ''U'' stablePool [USDC, tokenA] 0 \<noteq>
   accumulatePoolValue exampleConfig stableStore ''U'' stablePool [tokenA]
     (0 + valueInUSD exampleConfig stableStore 10 USDC)"
  by (simp add: stableStore_facts example_registry valueInUSD_def)

text \<open>
  C2, amended: every constituent token with a balance record, and not excluded by the
  virtual-supply rule, adds its balance times its recorded \<open>latestUSDPrice\<close> to the
  running total, and nothing when no price is recorded; a token without a balance
  record, or excluded, adds nothing; the loop visits every listed token, so the total
  is the sum of these amounts over the whole list. For a token that is not USD-stable
  the amount is \<open>valueInUSD (balance, tokenAddress)\<close>.
\<close>

theorem accumulatePoolValue_total:
  "accumulatePoolValue cfg s pid pool ts acc =
     acc + sum_list (map (\<lambda>t.
       case loadPoolToken s pid t of
         None \<Rightarrow> 0
       | Some pt \<Rightarrow>
           if hasVirtualSupply cfg pool \<and> address pool = t then 0
           else (case latestUSDPrice (getToken s t) of
                   None \<Rightarrow> 0
                 | Some p \<Rightarrow> balance pt * p)) ts) \<and>
   accumulatePoolValue cfg s pid pool ts acc =
     acc + sum_list (map (\<lambda>t.
       case loadPoolToken s pid t of
         None \<Rightarrow> 0
       | Some pt \<Rightarrow>
           if hasVirtualSupply cfg pool \<and> address pool = t then 0
           else if isUSDStable cfg t then
             (case latestUSDPrice (getToken s t) of
                None \<Rightarrow> 0
              | Some p \<Rightarrow> balance pt * p)
           else valueInUSD cfg s (balance pt) t) ts)"
proof -
  define added where "added = (\<lambda>t.
       case loadPoolToken s pid t of
         None \<Rightarrow> 0
       | Some pt \<Rightarrow>
           if hasVirtualSupply cfg pool \<and> address pool = t then 0
           else (case latestUSDPrice (getToken s t) of
                   None \<Rightarrow> 0
                 | Some p \<Rightarrow> balance pt * p))"
  have same: "(\<lambda>t.
       case loadPoolToken s pid t of
         None \<Rightarrow> 0
       | Some pt \<Rightarrow>
           if hasVirtualSupply cfg pool \<and> address pool = t then 0
           else if isUSDStable cfg t then
             (case latestUSDPrice (getToken s t) of
                None \<Rightarrow> 0
              | Some p \<Rightarrow> balance pt * p)
           else valueInUSD cfg s (balance pt) t) = added"
    by (rule ext) (auto simp add: added_def valueInUSD_def ZERO_BD_def split: option.splits)
  have "accumulatePoolValue cfg s pid pool ts acc = acc + sum_list (map added ts)"
  proof (induction ts arbitrary: acc)
    case Nil
    show ?case by simp
  next
    case (Cons t ts)
    show ?case
      by (auto simp add: Cons.IH added_def [symmetric] Let_def split: option.splits)
        (simp_all add: added_def mult.commute)
  qed
  then show ?thesis
    unfolding same unfolding added_def by simp
qed

theorem accumulatePoolValue_total_witness:
  "loadPoolToken stableStore ''U'' tokenC = None \<and>
   loadPoolToken stableStore ''U'' USDC = Some \<lparr>balance = 10\<rparr> \<and>
   isUSDStable exampleConfig USDC \<and>
   latestUSDPrice (getToken stableStore USDC) = None \<and>
   loadPoolToken stableStore ''U'' tokenA = Some \<lparr>balance = 3\<rparr> \<and>
   \<not> isUSDStable exampleConfig tokenA \<and>
   valueInUSD exampleConfig stableStore 3 tokenA = 6 \<and>
   accumulatePoolValue exampleConfig stableStore ''U'' stablePool [tokenC, USDC, tokenA] 1 = 7 \<and>
   accumulatePoolValue exampleConfig stableStore ''U'' stablePool [tokenA, tokenC, tokenA] 0 = 12"
proof -
  have v: "valueInUSD exampleConfig stableStore 3 tokenA = 6"
    by (simp add: valueInUSD_def example_registry stableStore_facts)
  from accumulatePoolValue_total
    [of exampleConfig stableStore "''U''" stablePool "[tokenC, USDC, tokenA]" 1, THEN conjunct2]
  have "accumulatePoolValue exampleConfig stableStore ''U'' stablePool [tokenC, USDC, tokenA] 1 = 7"
    by (simp add: stableStore_facts stableStore_tokenC example_registry v)
  moreover
  from accumulatePoolValue_total
    [of exampleConfig stableStore "''U''" stablePool "[tokenA, tokenC, tokenA]" 0, THEN conjunct1]
  have "accumulatePoolValue exampleConfig stableStore ''U'' stablePool [tokenA, tokenC, tokenA] 0 = 12"
    by (simp add: stableStore_facts stableStore_tokenC)
  ultimately show ?thesis
    using v stableStore_facts stableStore_tokenC example_registry by simp
qed

text \<open>
  C3. For every amount \<open>x\<close> and asset \<open>a\<close>: when \<open>a\<close> is USD-stable, \<open>valueInUSD\<close>
  returns \<open>x\<close> unchanged; otherwise, when the Token of \<open>a\<close> has no recorded
  \<open>latestUSDPrice\<close>, it returns zero; otherwise it returns \<open>x\<close> times that price.
  \<open>valueInUSD\<close> has no failing branch: it is a total function of the store.
\<close>

theorem valueInUSD_cases:
  "(isUSDStable cfg a \<longrightarrow> valueInUSD cfg s x a = x) \<and>
   (\<not> isUSDStable cfg a \<and> latestUSDPrice (getToken s a) = None \<longrightarrow> valueInUSD cfg s x a = 0) \<and>
   (\<not> isUSDStable cfg a \<and> latestUSDPrice (getToken s a) = Some p \<longrightarrow>
      valueInUSD cfg s x a = x * p)"
  by (simp add: valueInUSD_def ZERO_BD_def)

theorem valueInUSD_cases_witness:
  "isUSDStable exampleConfig USDC \<and> valueInUSD exampleConfig pricedStore 7 USDC = 7 \<and>
   \<not> isUSDStable exampleConfig tokenC \<and> latestUSDPrice (getToken pricedStore tokenC) = None \<and>
   valueInUSD exampleConfig pricedStore 7 tokenC = 0 \<and>
   \<not> isUSDStable exampleConfig tokenA \<and> latestUSDPrice (getToken pricedStore tokenA) = Some 2 \<and>
   valueInUSD exampleConfig pricedStore 7 tokenA = 14"
proof -
  have st: "isUSDStable exampleConfig USDC"
    by (simp add: isUSDStable_def exampleConfig_def)
  have nc: "\<not> isUSDStable exampleConfig tokenC"
    by (simp add: isUSDStable_def exampleConfig_def example_assets)
  have na: "\<not> isUSDStable exampleConfig tokenA"
    by (simp add: isUSDStable_def exampleConfig_def example_assets)
  have pc: "latestUSDPrice (getToken pricedStore tokenC) = None"
    by (simp add: getToken_def pricedStore_def emptyStore_def example_assets)
  have pa: "latestUSDPrice (getToken pricedStore tokenA) = Some 2"
    by (simp add: getToken_def pricedStore_def emptyStore_def example_assets)
  from valueInUSD_cases [of exampleConfig USDC pricedStore 7 2] st
  have "valueInUSD exampleConfig pricedStore 7 USDC = 7" by simp
  moreover from valueInUSD_cases [of exampleConfig tokenC pricedStore 7 2] nc pc
  have "valueInUSD exampleConfig pricedStore 7 tokenC = 0" by simp
  moreover from valueInUSD_cases [of exampleConfig tokenA pricedStore 7 2] na pa
  have "valueInUSD exampleConfig pricedStore 7 tokenA = 14" by simp
  ultimately show ?thesis using st nc na pc pa by simp
qed

text \<open>
  C4. \<open>swapValueInUSD\<close> follows this precedence: a USD-stable \<open>assetOut\<close> gives the USD
  value of \<open>amountOut\<close>; else a USD-stable \<open>assetIn\<close> gives that of \<open>amountIn\<close>; else,
  when exactly one of the two assets is a pricing asset, the USD value of that side's
  amount; else the sum of both sides' USD values, halved when both are strictly positive
  and undivided otherwise.
\<close>

theorem swapValueInUSD_precedence:
  "swapValueInUSD cfg s assetIn amountIn assetOut amountOut =
     (if isUSDStable cfg assetOut then valueInUSD cfg s amountOut assetOut
      else if isUSDStable cfg assetIn then valueInUSD cfg s amountIn assetIn
      else if isPricingAsset cfg assetIn \<noteq> isPricingAsset cfg assetOut then
        (if isPricingAsset cfg assetIn then valueInUSD cfg s amountIn assetIn
         else valueInUSD cfg s amountOut assetOut)
      else if 0 < valueInUSD cfg s amountIn assetIn \<and> 0 < valueInUSD cfg s amountOut assetOut
        then (valueInUSD cfg s amountIn assetIn + valueInUSD cfg s amountOut assetOut) / 2
      else valueInUSD cfg s amountIn assetIn + valueInUSD cfg s amountOut assetOut)"
  by (auto simp add: swapValueInUSD_def ZERO_BD_def ONE_BD_def Let_def)

theorem swapValueInUSD_precedence_witness:
  "swapValueInUSD exampleConfig pricedStore tokenA 5 USDC 9 = 9 \<and>
   swapValueInUSD exampleConfig pricedStore USDC 9 tokenA 5 = 9 \<and>
   swapValueInUSD exampleConfig pricedStore WETH 1 tokenA 600 = 1000 \<and>
   swapValueInUSD exampleConfig pricedStore tokenA 600 WETH 1 = 1000 \<and>
   swapValueInUSD exampleConfig pricedStore tokenA 5 tokenB 4 = 13 \<and>
   swapValueInUSD exampleConfig pricedStore tokenA 5 tokenC 7 = 10"
  using swapValueInUSD_precedence [of exampleConfig pricedStore tokenA 5 USDC 9]
    swapValueInUSD_precedence [of exampleConfig pricedStore USDC 9 tokenA 5]
    swapValueInUSD_precedence [of exampleConfig pricedStore WETH 1 tokenA 600]
    swapValueInUSD_precedence [of exampleConfig pricedStore tokenA 600 WETH 1]
    swapValueInUSD_precedence [of exampleConfig pricedStore tokenA 5 tokenB 4]
    swapValueInUSD_precedence [of exampleConfig pricedStore tokenA 5 tokenC 7]
  by (simp add: example_registry example_values)

text \<open>
  C5. \<open>updateLatestPrice\<close> upserts the LatestPrice record keyed by (asset, pricingAsset).
  Two observations \<open>o1\<close>, \<open>o2\<close> of the same pair, applied in this order whatever their
  blocks and prices, leave the ids of the store as they were plus the id \<open>k\<close> of the pair:
  the second call adds no id. The record under \<open>k\<close> carries the block, poolId and price
  of \<open>o2\<close>, and its asset and pricingAsset are those it had after the first call (those of
  the pair when the first call created it). In a store whose records sit under the ids
  of their own fields, \<open>k\<close> is the only id holding a record for the pair.
\<close>

theorem updateLatestPrice_upsert:
  assumes "TokenPrice.asset o2 = TokenPrice.asset o1"
    and "TokenPrice.pricingAsset o2 = TokenPrice.pricingAsset o1"
  shows "let a = TokenPrice.asset o1; p = TokenPrice.pricingAsset o1;
             k = getLatestPriceId a p;
             s1 = updateLatestPrice cfg o1 s;
             s2 = updateLatestPrice cfg o2 s1
         in dom (LatestPrices s2) = insert k (dom (LatestPrices s)) \<and>
            dom (LatestPrices s2) = dom (LatestPrices s1) \<and>
            (\<exists>r1. LatestPrices s1 k = Some r1 \<and>
               LatestPrices s2 k = Some (r1\<lparr>LatestPrice.block := TokenPrice.block o2,
                 LatestPrice.poolId := TokenPrice.poolId o2,
                 LatestPrice.price := TokenPrice.price o2\<rparr>)) \<and>
            (LatestPrices s k = None \<longrightarrow>
               LatestPrices s2 k = Some \<lparr>LatestPrice.asset = a, LatestPrice.pricingAsset = p,
                 LatestPrice.block = TokenPrice.block o2, LatestPrice.poolId = TokenPrice.poolId o2,
                 LatestPrice.price = TokenPrice.price o2\<rparr>) \<and>
            (latestPriceIdsConsistent s \<longrightarrow>
               {k'. \<exists>r. LatestPrices s2 k' = Some r \<and> LatestPrice.asset r = a \<and>
                      LatestPrice.pricingAsset r = p} = {k})"
proof -
  define a p k where "a = TokenPrice.asset o1" and "p = TokenPrice.pricingAsset o1"
    and "k = getLatestPriceId a p"
  define s1 s2 where "s1 = updateLatestPrice cfg o1 s" and "s2 = updateLatestPrice cfg o2 s1"
  note defs = a_def p_def k_def s1_def s2_def
  have d2: "dom (LatestPrices s2) = insert k (dom (LatestPrices s))"
    using assms by (auto simp add: defs updateLatestPrice_LatestPrices)
  have d1: "dom (LatestPrices s2) = dom (LatestPrices s1)"
    using assms by (auto simp add: defs updateLatestPrice_LatestPrices)
  have r: "\<exists>r1. LatestPrices s1 k = Some r1 \<and>
      LatestPrices s2 k = Some (r1\<lparr>LatestPrice.block := TokenPrice.block o2,
        LatestPrice.poolId := TokenPrice.poolId o2, LatestPrice.price := TokenPrice.price o2\<rparr>)"
    using assms by (simp add: defs updateLatestPrice_LatestPrices)
  have c: "LatestPrices s k = None \<longrightarrow>
      LatestPrices s2 k = Some \<lparr>LatestPrice.asset = a, LatestPrice.pricingAsset = p,
        LatestPrice.block = TokenPrice.block o2, LatestPrice.poolId = TokenPrice.poolId o2,
        LatestPrice.price = TokenPrice.price o2\<rparr>"
    using assms by (simp add: defs updateLatestPrice_LatestPrices)
  have u: "{k'. \<exists>r. LatestPrices s2 k' = Some r \<and> LatestPrice.asset r = a \<and>
      LatestPrice.pricingAsset r = p} = {k}" if inv: "latestPriceIdsConsistent s"
  proof -
    have inv2: "latestPriceIdsConsistent s2"
      unfolding s2_def s1_def by (intro updateLatestPrice_consistent inv)
    obtain r2 where r2: "LatestPrices s2 k = Some r2"
      using r by blast
    with inv2 have "k = getLatestPriceId (LatestPrice.asset r2) (LatestPrice.pricingAsset r2)"
      by (simp add: latestPriceIdsConsistent_def)
    then have "LatestPrice.asset r2 = a \<and> LatestPrice.pricingAsset r2 = p"
      by (simp add: k_def getLatestPriceId_inj)
    with r2 have "k \<in> {k'. \<exists>r. LatestPrices s2 k' = Some r \<and> LatestPrice.asset r = a \<and>
        LatestPrice.pricingAsset r = p}"
      by simp
    moreover have "k' = k" if "LatestPrices s2 k' = Some r'" "LatestPrice.asset r' = a"
      "LatestPrice.pricingAsset r' = p" for k' r'
      using inv2 that unfolding latestPriceIdsConsistent_def k_def by blast
    ultimately show ?thesis by blast
  qed
  from d2 d1 r c u show ?thesis
    unfolding Let_def defs [symmetric] by blast
qed

theorem updateLatestPrice_upsert_witness:
  "TokenPrice.asset observation2 = TokenPrice.asset observation1 \<and>
   TokenPrice.pricingAsset observation2 = TokenPrice.pricingAsset observation1 \<and>
   TokenPrice.block observation2 < TokenPrice.block observation1 \<and>
   latestPriceIdsConsistent emptyStore \<and>
   LatestPrices (updateLatestPrice exampleConfig observation2
       (updateLatestPrice exampleConfig observation1 emptyStore)) (getLatestPriceId tokenA WETH) =
     Some \<lparr>LatestPrice.asset = tokenA, LatestPrice.pricingAsset = WETH, LatestPrice.block = 10,
       LatestPrice.poolId = ''Q'', LatestPrice.price = 5\<rparr> \<and>
   dom (LatestPrices (updateLatestPrice exampleConfig observation2
       (updateLatestPrice exampleConfig observation1 emptyStore))) = {getLatestPriceId tokenA WETH} \<and>
   {k'. \<exists>r. LatestPrices (updateLatestPrice exampleConfig observation2
       (updateLatestPrice exampleConfig observation1 emptyStore)) k' = Some r \<and>
       LatestPrice.asset r = tokenA \<and> LatestPrice.pricingAsset r = WETH} =
     {getLatestPriceId tokenA WETH}"
proof -
  have same: "TokenPrice.asset observation2 = TokenPrice.asset observation1"
    "TokenPrice.pricingAsset observation2 = TokenPrice.pricingAsset observation1"
    by (simp_all add: observation1_def observation2_def)
  have inv: "latestPriceIdsConsistent emptyStore"
    by (simp add: latestPriceIdsConsistent_def emptyStore_def)
  have none: "LatestPrices emptyStore (getLatestPriceId tokenA WETH) = None"
    by (simp add: emptyStore_def)
  have "dom (LatestPrices emptyStore) = {}"
    by (simp add: emptyStore_def)
  with updateLatestPrice_upsert [OF same, of exampleConfig emptyStore] inv none same
  show ?thesis
    by (simp add: Let_def observation1_def observation2_def)
qed

text \<open>
  C6. After \<open>updateLatestPrice\<close>, the Token of the observed asset holds as
  \<open>latestUSDPrice\<close> the value \<open>valueInUSD (price, pricingAsset)\<close> computed in the store
  the call started from: the observed price itself when the pricing asset is USD-stable,
  zero when the pricing asset has no recorded USD price. Its \<open>latestPrice\<close> is the id of
  the upserted LatestPrice record, which carries the observation. When the asset is not
  its own pricing asset, or the pricing asset is USD-stable, \<open>valueInUSD\<close> gives the same
  value in the store after the call. The call has no failing branch.
\<close>

theorem updateLatestPrice_token:
  "let s' = updateLatestPrice cfg obs s;
       pa = TokenPrice.pricingAsset obs;
       k = getLatestPriceId (TokenPrice.asset obs) pa;
       usd = valueInUSD cfg s (TokenPrice.price obs) pa
   in (\<exists>t. Tokens s' (TokenPrice.asset obs) = Some t \<and> latestUSDPrice t = Some usd \<and>
           latestPrice t = Some k) \<and>
      (\<exists>r. LatestPrices s' k = Some r \<and> LatestPrice.block r = TokenPrice.block obs \<and>
           LatestPrice.poolId r = TokenPrice.poolId obs \<and>
           LatestPrice.price r = TokenPrice.price obs) \<and>
      (isUSDStable cfg pa \<longrightarrow> usd = TokenPrice.price obs) \<and>
      (\<not> isUSDStable cfg pa \<and> latestUSDPrice (getToken s pa) = None \<longrightarrow> usd = 0) \<and>
      (TokenPrice.asset obs \<noteq> pa \<or> isUSDStable cfg pa \<longrightarrow>
         valueInUSD cfg s' (TokenPrice.price obs) pa = usd)"
  by (auto simp add: Let_def updateLatestPrice_Tokens updateLatestPrice_LatestPrices
      valueInUSD_def getToken_def ZERO_BD_def split: option.splits)

theorem updateLatestPrice_token_witness:
  "isUSDStable exampleConfig (TokenPrice.pricingAsset observation3) \<and>
   TokenPrice.asset observation3 \<noteq> TokenPrice.pricingAsset observation3 \<and>
   map_option latestUSDPrice
     (Tokens (updateLatestPrice exampleConfig observation3 emptyStore) tokenA) = Some (Some 3) \<and>
   \<not> isUSDStable exampleConfig (TokenPrice.pricingAsset observation1) \<and>
   latestUSDPrice (getToken emptyStore (TokenPrice.pricingAsset observation1)) = None \<and>
   map_option latestUSDPrice
     (Tokens (updateLatestPrice exampleConfig observation1 emptyStore) tokenA) = Some (Some 0)"
proof -
  have st: "isUSDStable exampleConfig (TokenPrice.pricingAsset observation3)"
    by (simp add: isUSDStable_def observation3_def exampleConfig_def)
  have ne: "TokenPrice.asset observation3 \<noteq> TokenPrice.pricingAsset observation3"
    by (simp add: observation3_def tokenA_def USDC_def)
  have ns: "\<not> isUSDStable exampleConfig (TokenPrice.pricingAsset observation1)"
    by (simp add: isUSDStable_def observation1_def exampleConfig_def WETH_def USDC_def)
  have np: "latestUSDPrice (getToken emptyStore (TokenPrice.pricingAsset observation1)) = None"
    by (simp add: getToken_def emptyStore_def)
  have a3: "TokenPrice.asset observation3 = tokenA" and a1: "TokenPrice.asset observation1 = tokenA"
    by (simp_all add: observation3_def observation1_def)
  from updateLatestPrice_token [of exampleConfig observation3 emptyStore] st
  have "map_option latestUSDPrice
     (Tokens (updateLatestPrice exampleConfig observation3 emptyStore) tokenA) = Some (Some 3)"
    unfolding Let_def a3 by (auto simp add: observation3_def)
  moreover from updateLatestPrice_token [of exampleConfig observation1 emptyStore] ns np
  have "map_option latestUSDPrice
     (Tokens (updateLatestPrice exampleConfig observation1 emptyStore) tokenA) = Some (Some 0)"
    unfolding Let_def a1 by auto
  ultimately show ?thesis using st ne ns np by simp
qed

text \<open>
  C7. For a poolId whose Pool is absent, and for a Pool whose \<open>tokensList\<close> has fewer than
  two entries, \<open>updatePoolLiquidity\<close> returns false and the store after the call is the
  store before it: nothing is created or saved.
\<close>

theorem updatePoolLiquidity_rejects_small_pools:
  "Pools s pid = None \<or> (\<exists>pool. Pools s pid = Some pool \<and> length (tokensList pool) < 2) \<Longrightarrow>
   updatePoolLiquidity cfg pid blk ts s = Inr (False, s)"
  by (auto simp add: updatePoolLiquidity_def)

theorem updatePoolLiquidity_rejects_small_pools_witness:
  "Pools poolStore ''X'' = None \<and>
   updatePoolLiquidity exampleConfig ''X'' 100 1000 poolStore = Inr (False, poolStore) \<and>
   Pools poolStore ''S'' = Some singleTokenPool \<and> length (tokensList singleTokenPool) = 1 \<and>
   updatePoolLiquidity exampleConfig ''S'' 100 1000 poolStore = Inr (False, poolStore)"
proof -
  have x: "Pools poolStore ''X'' = None"
    by (simp add: poolStore_def emptyStore_def)
  have s: "Pools poolStore ''S'' = Some singleTokenPool"
    by (simp add: poolStore_def emptyStore_def)
  have l: "length (tokensList singleTokenPool) = 1"
    by (simp add: singleTokenPool_def)
  from x have "updatePoolLiquidity exampleConfig ''X'' 100 1000 poolStore = Inr (False, poolStore)"
    by (intro updatePoolLiquidity_rejects_small_pools) simp
  moreover from s l
  have "updatePoolLiquidity exampleConfig ''S'' 100 1000 poolStore = Inr (False, poolStore)"
    by (intro updatePoolLiquidity_rejects_small_pools) simp
  ultimately show ?thesis using x s l by simp
qed

text \<open>
  C8. When \<open>updatePoolLiquidity\<close> commits, the store holds a PoolHistoricalLiquidity row
  under the id of (poolId, first USD-stable asset, block): the three joined by dashes, an
  id that no other triple has. The row has \<open>poolTotalShares\<close> the pool's
  \<open>totalShares\<close>, \<open>poolLiquidity\<close> the new total and \<open>poolShareValue\<close> the new total
  divided by \<open>totalShares\<close> when that is positive, zero otherwise; no other row changes,
  and the stored pool has the new total as \<open>totalLiquidity\<close>. With tokens A (balance 10,
  price 2) and B (balance 5, price 4) the new total is 40, and with \<open>totalShares\<close> 20 the
  share value is 2.
\<close>

theorem updatePoolLiquidity_commit_snapshot:
  assumes "updatePoolLiquidity cfg pid blk ts s = Inr (True, s')"
    and "Pools s pid = Some pool"
  shows "let newTotal = accumulatePoolValue cfg s pid pool (tokensList pool) ZERO_BD;
             stable0 = hd (USD_STABLE_ASSETS cfg);
             shareValue = (if totalShares pool > 0 then newTotal / totalShares pool else 0);
             phlId = getPoolHistoricalLiquidityId pid stable0 blk
         in USD_STABLE_ASSETS cfg \<noteq> [] \<and>
            phlId = pid @ ''-'' @ toHexString stable0 @ ''-'' @ BigInt_toString blk \<and>
            (\<forall>pid' a' blk'. getPoolHistoricalLiquidityId pid' a' blk' = phlId \<longleftrightarrow>
               pid' = pid \<and> a' = stable0 \<and> blk' = blk) \<and>
            PoolHistoricalLiquidities s' phlId =
              Some \<lparr>PoolHistoricalLiquidity.poolId = pid,
                    PoolHistoricalLiquidity.pricingAsset = stable0,
                    PoolHistoricalLiquidity.block = blk,
                    poolTotalShares = totalShares pool,
                    poolLiquidity = newTotal,
                    poolShareValue = shareValue\<rparr> \<and>
            (\<forall>k. k \<noteq> phlId \<longrightarrow>
               PoolHistoricalLiquidities s' k = PoolHistoricalLiquidities s k) \<and>
            Pools s' pid = Some (pool\<lparr>Pool.totalLiquidity := newTotal\<rparr>) \<and>
            (tokensList pool = [A, B] \<and>
             loadPoolToken s pid A = Some \<lparr>balance = 10\<rparr> \<and>
             latestUSDPrice (getToken s A) = Some 2 \<and>
             loadPoolToken s pid B = Some \<lparr>balance = 5\<rparr> \<and>
             latestUSDPrice (getToken s B) = Some 4 \<and>
             \<not> (hasVirtualSupply cfg pool \<and> address pool \<in> {A, B}) \<longrightarrow>
               newTotal = 40 \<and> (totalShares pool = 20 \<longrightarrow> shareValue = 2))"
proof -
  let ?newTotal = "accumulatePoolValue cfg s pid pool (tokensList pool) ZERO_BD"
  let ?stable0 = "hd (USD_STABLE_ASSETS cfg)"
  let ?shareValue = "if totalShares pool > 0 then ?newTotal / totalShares pool else 0"
  let ?phlId = "getPoolHistoricalLiquidityId pid ?stable0 blk"
  let ?row = "\<lparr>PoolHistoricalLiquidity.poolId = pid,
     PoolHistoricalLiquidity.pricingAsset = ?stable0,
     PoolHistoricalLiquidity.block = blk,
     poolTotalShares = totalShares pool,
     poolLiquidity = ?newTotal,
     poolShareValue = ?shareValue\<rparr>"
  from updatePoolLiquidity_True_fields [OF assms(1)] assms(2)
  have fields: "USD_STABLE_ASSETS cfg \<noteq> [] \<and>
     Pools s' = (Pools s)(pid \<mapsto> pool\<lparr>Pool.totalLiquidity := ?newTotal\<rparr>) \<and>
     PoolHistoricalLiquidities s' = (PoolHistoricalLiquidities s)(?phlId \<mapsto> ?row)"
    by auto
  then have c1: "USD_STABLE_ASSETS cfg \<noteq> []" by simp
  have c2: "?phlId = pid @ ''-'' @ toHexString ?stable0 @ ''-'' @ BigInt_toString blk"
    by (simp add: getPoolHistoricalLiquidityId_def)
  have c3: "\<forall>pid' a' blk'. getPoolHistoricalLiquidityId pid' a' blk' = ?phlId \<longleftrightarrow>
      pid' = pid \<and> a' = ?stable0 \<and> blk' = blk"
    by (simp add: getPoolHistoricalLiquidityId_inj)
  from fields have c4: "PoolHistoricalLiquidities s' ?phlId = Some ?row" by simp
  from fields have c5: "\<forall>k. k \<noteq> ?phlId \<longrightarrow>
      PoolHistoricalLiquidities s' k = PoolHistoricalLiquidities s k"
    by simp
  from fields have c6: "Pools s' pid = Some (pool\<lparr>Pool.totalLiquidity := ?newTotal\<rparr>)"
    by simp
  have c7: "tokensList pool = [A, B] \<and>
      loadPoolToken s pid A = Some \<lparr>balance = 10\<rparr> \<and>
      latestUSDPrice (getToken s A) = Some 2 \<and>
      loadPoolToken s pid B = Some \<lparr>balance = 5\<rparr> \<and>
      latestUSDPrice (getToken s B) = Some 4 \<and>
      \<not> (hasVirtualSupply cfg pool \<and> address pool \<in> {A, B}) \<longrightarrow>
        ?newTotal = 40 \<and> (totalShares pool = 20 \<longrightarrow> ?shareValue = 2)"
    by (auto simp add: Let_def ZERO_BD_def)
  from c1 c2 c3 c4 c5 c6 c7 show ?thesis
    unfolding Let_def by blast
qed

theorem updatePoolLiquidity_commit_snapshot_witness:
  "Pools poolStore ''P'' = Some poolP \<and>
   tokensList poolP = [tokenA, tokenB] \<and> totalShares poolP = 20 \<and>
   loadPoolToken poolStore ''P'' tokenA = Some \<lparr>balance = 10\<rparr> \<and>
   latestUSDPrice (getToken poolStore tokenA) = Some 2 \<and>
   loadPoolToken poolStore ''P'' tokenB = Some \<lparr>balance = 5\<rparr> \<and>
   latestUSDPrice (getToken poolStore tokenB) = Some 4 \<and>
   \<not> (hasVirtualSupply exampleConfig poolP \<and> address poolP \<in> {tokenA, tokenB}) \<and>
   (\<exists>s'. updatePoolLiquidity exampleConfig ''P'' 100 1000 poolStore = Inr (True, s') \<and>
      PoolHistoricalLiquidities s' ''P-0x0000000000000000000000000000000000000001-100'' =
        Some \<lparr>PoolHistoricalLiquidity.poolId = ''P'', PoolHistoricalLiquidity.pricingAsset = USDC,
              PoolHistoricalLiquidity.block = 100, poolTotalShares = 20, poolLiquidity = 40,
              poolShareValue = 2\<rparr> \<and>
      Pools s' ''P'' = Some (poolP\<lparr>Pool.totalLiquidity := 40\<rparr>)) \<and>
   Pools poolStore ''Q'' = Some poolQ \<and> totalShares poolQ = 0 \<and>
   (\<exists>s'. updatePoolLiquidity exampleConfig ''Q'' 101 1001 poolStore = Inr (True, s') \<and>
      PoolHistoricalLiquidities s' ''Q-0x0000000000000000000000000000000000000001-101'' =
        Some \<lparr>PoolHistoricalLiquidity.poolId = ''Q'', PoolHistoricalLiquidity.pricingAsset = USDC,
              PoolHistoricalLiquidity.block = 101, poolTotalShares = 0, poolLiquidity = 20,
              poolShareValue = 0\<rparr>)"
proof -
  have lenP: "2 \<le> length (tokensList poolP)" and lenQ: "2 \<le> length (tokensList poolQ)"
    and shQ: "totalShares poolQ = 0"
    by (simp_all add: poolP_def poolQ_def)
  have st: "hd (USD_STABLE_ASSETS exampleConfig) = USDC"
    by (simp add: poolStore_lookups(4))
  from updatePoolLiquidity_commit [OF poolStore_lookups(1) lenP poolStore_lookups(4)
      poolStore_lookups(3), of 100 1000]
  obtain s' where r: "updatePoolLiquidity exampleConfig ''P'' 100 1000 poolStore = Inr (True, s')"
    by blast
  note P = updatePoolLiquidity_commit_snapshot [OF r poolStore_lookups(1), of tokenA tokenB,
      unfolded Let_def]
  from P poolStore_tokens
  have totalP: "accumulatePoolValue exampleConfig poolStore ''P'' poolP (tokensList poolP)
      ZERO_BD = 40"
    and shareP: "(if totalShares poolP > 0
        then accumulatePoolValue exampleConfig poolStore ''P'' poolP (tokensList poolP) ZERO_BD
          / totalShares poolP
        else 0) = 2"
    by blast+
  from P have "PoolHistoricalLiquidities s'
      (getPoolHistoricalLiquidityId ''P'' (hd (USD_STABLE_ASSETS exampleConfig)) 100) =
        Some \<lparr>PoolHistoricalLiquidity.poolId = ''P'',
              PoolHistoricalLiquidity.pricingAsset = hd (USD_STABLE_ASSETS exampleConfig),
              PoolHistoricalLiquidity.block = 100, poolTotalShares = totalShares poolP,
              poolLiquidity =
                accumulatePoolValue exampleConfig poolStore ''P'' poolP (tokensList poolP) ZERO_BD,
              poolShareValue = (if totalShares poolP > 0
                then accumulatePoolValue exampleConfig poolStore ''P'' poolP (tokensList poolP)
                  ZERO_BD / totalShares poolP
                else 0)\<rparr>"
    and "Pools s' ''P'' = Some (poolP\<lparr>Pool.totalLiquidity :=
      accumulatePoolValue exampleConfig poolStore ''P'' poolP (tokensList poolP) ZERO_BD\<rparr>)"
    by blast+
  then have p: "PoolHistoricalLiquidities s' ''P-0x0000000000000000000000000000000000000001-100'' =
        Some \<lparr>PoolHistoricalLiquidity.poolId = ''P'', PoolHistoricalLiquidity.pricingAsset = USDC,
              PoolHistoricalLiquidity.block = 100, poolTotalShares = 20, poolLiquidity = 40,
              poolShareValue = 2\<rparr> \<and>
      Pools s' ''P'' = Some (poolP\<lparr>Pool.totalLiquidity := 40\<rparr>)"
    unfolding totalP shareP st getPoolHistoricalLiquidityId_example poolStore_tokens(2)
    by simp
  from updatePoolLiquidity_commit [OF poolStore_lookups(2) lenQ poolStore_lookups(4)
      poolStore_lookups(3), of 101 1001]
  obtain t' where q: "updatePoolLiquidity exampleConfig ''Q'' 101 1001 poolStore = Inr (True, t')"
    by blast
  note Q = updatePoolLiquidity_commit_snapshot [OF q poolStore_lookups(2), of tokenA tokenB,
      unfolded Let_def]
  from Q have "PoolHistoricalLiquidities t'
      (getPoolHistoricalLiquidityId ''Q'' (hd (USD_STABLE_ASSETS exampleConfig)) 101) =
        Some \<lparr>PoolHistoricalLiquidity.poolId = ''Q'',
              PoolHistoricalLiquidity.pricingAsset = hd (USD_STABLE_ASSETS exampleConfig),
              PoolHistoricalLiquidity.block = 101, poolTotalShares = totalShares poolQ,
              poolLiquidity =
                accumulatePoolValue exampleConfig poolStore ''Q'' poolQ (tokensList poolQ) ZERO_BD,
              poolShareValue = (if totalShares poolQ > 0
                then accumulatePoolValue exampleConfig poolStore ''Q'' poolQ (tokensList poolQ)
                  ZERO_BD / totalShares poolQ
                else 0)\<rparr>"
    by blast
  then have "PoolHistoricalLiquidities t' ''Q-0x0000000000000000000000000000000000000001-101'' =
        Some \<lparr>PoolHistoricalLiquidity.poolId = ''Q'', PoolHistoricalLiquidity.pricingAsset = USDC,
              PoolHistoricalLiquidity.block = 101, poolTotalShares = 0, poolLiquidity = 20,
              poolShareValue = 0\<rparr>"
    unfolding poolStore_values st getPoolHistoricalLiquidityId_example_Q shQ
    by simp
  with p r q poolStore_lookups poolStore_tokens shQ show ?thesis
    by blast
qed



text \<open>
  C10, as stated: for every store in which the pool exists with at least two listed
  tokens, the call returns true. It does not when the commit cannot run: without the
  Balancer entity \<^verbatim>\<open>'2'\<close> the handler ends in a trap at the fields of
  \<^verbatim>\<open>Balancer.load('2') as Balancer\<close>, and with an empty list of USD-stable assets at
  \<^verbatim>\<open>USD_STABLE_ASSETS[0]\<close>; neither run returns a value.
\<close>

theorem updatePoolLiquidity_trap_counterexample:
  "Pools noAggregateStore ''P'' = Some poolP \<and>
   2 \<le> length (tokensList poolP) \<and>
   updatePoolLiquidity exampleConfig ''P'' 100 1000 noAggregateStore = Inl NullDereference \<and>
   Pools poolStore ''P'' = Some poolP \<and>
   updatePoolLiquidity noStableConfig ''P'' 100 1000 poolStore = Inl IndexOutOfRange"
  using updatePoolLiquidity_traps(2) [OF example_traps(1) example_traps(5) example_traps(3)
      example_traps(2), of 100 1000]
    updatePoolLiquidity_traps(1) [OF poolStore_lookups(1) example_traps(5) example_traps(4),
      of 100 1000]
    example_traps poolStore_lookups
  by simp

text \<open>
  C10, amended: \<open>updatePoolLiquidity\<close> returns false exactly when the pool is absent or
  lists fewer than two tokens, and then leaves the store as it was. For a pool that
  exists and lists at least two tokens the sanity check never rejects the call,
  whatever prices are absent and whatever the prior \<open>totalLiquidity\<close> was: the call
  goes on to the commit. When the list of USD-stable assets is not empty and the
  Balancer entity \<^verbatim>\<open>'2'\<close> is stored, it commits and returns true: the snapshot row
  carries the new total, the pool's \<open>totalLiquidity\<close> is the new total and the aggregate
  has moved by the difference. Otherwise the handler ends in a trap.
\<close>

theorem updatePoolLiquidity_returns:
  "(updatePoolLiquidity cfg pid blk ts s = Inr (False, s') \<longleftrightarrow>
      s' = s \<and>
      (Pools s pid = None \<or> (\<exists>pool. Pools s pid = Some pool \<and> length (tokensList pool) < 2))) \<and>
   (Pools s pid = Some pool \<and> 2 \<le> length (tokensList pool) \<longrightarrow>
      (USD_STABLE_ASSETS cfg = [] \<longrightarrow>
         updatePoolLiquidity cfg pid blk ts s = Inl IndexOutOfRange) \<and>
      (USD_STABLE_ASSETS cfg \<noteq> [] \<and> Balancers s ''2'' = None \<longrightarrow>
         updatePoolLiquidity cfg pid blk ts s = Inl NullDereference) \<and>
      (USD_STABLE_ASSETS cfg \<noteq> [] \<and> Balancers s ''2'' = Some vault \<longrightarrow>
         (\<exists>s''. updatePoolLiquidity cfg pid blk ts s = Inr (True, s'') \<and>
            Pools s'' pid = Some (pool\<lparr>Pool.totalLiquidity :=
              accumulatePoolValue cfg s pid pool (tokensList pool) ZERO_BD\<rparr>) \<and>
            map_option poolLiquidity (PoolHistoricalLiquidities s''
              (getPoolHistoricalLiquidityId pid (hd (USD_STABLE_ASSETS cfg)) blk)) =
              Some (accumulatePoolValue cfg s pid pool (tokensList pool) ZERO_BD) \<and>
            Balancers s'' ''2'' = Some (vault\<lparr>Balancer.totalLiquidity :=
              Balancer.totalLiquidity vault +
                (accumulatePoolValue cfg s pid pool (tokensList pool) ZERO_BD
                   - Pool.totalLiquidity pool)\<rparr>))))"
proof -
  have a: "updatePoolLiquidity cfg pid blk ts s = Inr (False, s') \<longleftrightarrow>
      s' = s \<and>
      (Pools s pid = None \<or> (\<exists>pool. Pools s pid = Some pool \<and> length (tokensList pool) < 2))"
    by (rule updatePoolLiquidity_False_iff)
  have c: "\<exists>s''. updatePoolLiquidity cfg pid blk ts s = Inr (True, s'') \<and>
            Pools s'' pid = Some (pool\<lparr>Pool.totalLiquidity :=
              accumulatePoolValue cfg s pid pool (tokensList pool) ZERO_BD\<rparr>) \<and>
            map_option poolLiquidity (PoolHistoricalLiquidities s''
              (getPoolHistoricalLiquidityId pid (hd (USD_STABLE_ASSETS cfg)) blk)) =
              Some (accumulatePoolValue cfg s pid pool (tokensList pool) ZERO_BD) \<and>
            Balancers s'' ''2'' = Some (vault\<lparr>Balancer.totalLiquidity :=
              Balancer.totalLiquidity vault +
                (accumulatePoolValue cfg s pid pool (tokensList pool) ZERO_BD
                   - Pool.totalLiquidity pool)\<rparr>)"
    if "Pools s pid = Some pool" "2 \<le> length (tokensList pool)"
      "USD_STABLE_ASSETS cfg \<noteq> []" "Balancers s ''2'' = Some vault"
  proof -
    from that(3) obtain stable0 others where st: "USD_STABLE_ASSETS cfg = stable0 # others"
      by (cases "USD_STABLE_ASSETS cfg") auto
    from updatePoolLiquidity_commit [OF that(1,2) st that(4), of blk ts] st
    show ?thesis by auto
  qed
  from a c updatePoolLiquidity_traps [of s pid pool cfg blk ts] show ?thesis
    by blast
qed

theorem updatePoolLiquidity_returns_witness:
  "Pools unpricedStore ''P'' = Some unpricedPool \<and>
   2 \<le> length (tokensList unpricedPool) \<and>
   Pool.totalLiquidity unpricedPool = 40 \<and>
   USD_STABLE_ASSETS exampleConfig \<noteq> [] \<and>
   Balancers unpricedStore ''2'' = Some \<lparr>Balancer.totalLiquidity = 40\<rparr> \<and>
   latestUSDPrice (getToken unpricedStore tokenA) = None \<and>
   latestUSDPrice (getToken unpricedStore tokenB) = None \<and>
   (\<exists>s''. updatePoolLiquidity exampleConfig ''P'' 7 8 unpricedStore = Inr (True, s'') \<and>
      Pools s'' ''P'' = Some (unpricedPool\<lparr>Pool.totalLiquidity := 0\<rparr>) \<and>
      Balancers s'' ''2'' = Some \<lparr>Balancer.totalLiquidity = 0\<rparr>) \<and>
   Pools unpricedStore ''X'' = None \<and>
   updatePoolLiquidity exampleConfig ''X'' 7 8 unpricedStore = Inr (False, unpricedStore) \<and>
   Pools noAggregateStore ''P'' = Some poolP \<and> 2 \<le> length (tokensList poolP) \<and>
   Balancers noAggregateStore ''2'' = None \<and>
   updatePoolLiquidity exampleConfig ''P'' 7 8 noAggregateStore = Inl NullDereference \<and>
   Pools poolStore ''P'' = Some poolP \<and> USD_STABLE_ASSETS noStableConfig = [] \<and>
   updatePoolLiquidity noStableConfig ''P'' 7 8 poolStore = Inl IndexOutOfRange"
proof -
  have len: "2 \<le> length (tokensList unpricedPool)"
    and old: "Pool.totalLiquidity unpricedPool = 40"
    by (simp_all add: unpricedPool_def)
  have np: "latestUSDPrice (getToken unpricedStore tokenA) = None"
    "latestUSDPrice (getToken unpricedStore tokenB) = None"
    by (simp_all add: getToken_def unpricedStore_def emptyStore_def)
  have x: "Pools unpricedStore ''X'' = None"
    by (simp add: unpricedStore_def emptyStore_def)
  from updatePoolLiquidity_returns [of exampleConfig "''P''" 7 8 unpricedStore unpricedStore
      unpricedPool "\<lparr>Balancer.totalLiquidity = 40\<rparr>"]
    unpricedStore_facts len old example_traps(3)
  have 1: "\<exists>s''. updatePoolLiquidity exampleConfig ''P'' 7 8 unpricedStore = Inr (True, s'') \<and>
      Pools s'' ''P'' = Some (unpricedPool\<lparr>Pool.totalLiquidity := 0\<rparr>) \<and>
      Balancers s'' ''2'' = Some \<lparr>Balancer.totalLiquidity = 0\<rparr>"
    by auto
  from updatePoolLiquidity_returns [of exampleConfig "''X''" 7 8 unpricedStore unpricedStore
      unpricedPool "\<lparr>Balancer.totalLiquidity = 0\<rparr>"] x
  have 2: "updatePoolLiquidity exampleConfig ''X'' 7 8 unpricedStore = Inr (False, unpricedStore)"
    by simp
  from updatePoolLiquidity_returns [of exampleConfig "''P''" 7 8 noAggregateStore noAggregateStore
      poolP "\<lparr>Balancer.totalLiquidity = 0\<rparr>"] example_traps
  have 3: "updatePoolLiquidity exampleConfig ''P'' 7 8 noAggregateStore = Inl NullDereference"
    by simp
  from updatePoolLiquidity_returns [of noStableConfig "''P''" 7 8 poolStore poolStore
      poolP "\<lparr>Balancer.totalLiquidity = 0\<rparr>"] example_traps poolStore_lookups
  have 4: "updatePoolLiquidity noStableConfig ''P'' 7 8 poolStore = Inl IndexOutOfRange"
    by simp
  from 1 2 3 4 len old np x unpricedStore_facts example_traps poolStore_lookups
  show ?thesis by simp
qed

end
